theory Spec2Isabelle
  imports Complex_Main "HOL-Library.Sublist"
begin

section \<open>Strings\<close>

text \<open>
  Model identifiers, prompts and messages are JavaScript strings, modelled as
  \<^typ>\<open>string\<close>.  \<open>s.includes(t)\<close> holds when \<open>t\<close> occurs in \<open>s\<close> as a
  contiguous run of characters.
\<close>

definition js_includes :: "string \<Rightarrow> string \<Rightarrow> bool" where
  "js_includes s t = sublist t s"

text \<open>
  The slots \<open>availableModels.text\<close> and \<open>availableModels.vision\<close> hold \<open>null\<close> or a
  string.  The source tests them with \<open>!x\<close> and \<open>x && ...\<close>: \<open>null\<close> and the empty
  string are falsy.
\<close>

fun falsy :: "string option \<Rightarrow> bool" where
  "falsy None = True"
| "falsy (Some s) = (s = [])"

section \<open>Model scorer\<close>

text \<open>
  The repository holds two versions of the server (\<open>src/unnamed/part_000\<close> and
  \<open>src/unnamed/part_001\<close>); both define \<open>getModelScore\<close>, \<open>isBetterModel\<close> and
  \<open>discoverAvailableModels\<close>, with different bodies.  The suffixes \<open>_000\<close> and
  \<open>_001\<close> name the file a definition is taken from.
\<close>

definition getModelScore_000 :: "string \<Rightarrow> int" where
  "getModelScore_000 modelName =
     (let score = 0;
          score = (if js_includes modelName ''2.0'' then score + 200
                   else if js_includes modelName ''1.5'' then score + 100
                   else if js_includes modelName ''1.0'' then score + 50
                   else score + 10);
          score = (if js_includes modelName ''pro'' then score + 30
                   else if js_includes modelName ''flash'' then score + 20
                   else score);
          score = (if js_includes modelName ''vision'' then score + 100 else score)
      in score)"

definition isBetterModel_000 :: "string \<Rightarrow> string \<Rightarrow> bool" where
  "isBetterModel_000 newModel currentModel =
     (getModelScore_000 newModel > getModelScore_000 currentModel)"

definition getModelScore_001 :: "string \<Rightarrow> int" where
  "getModelScore_001 modelName =
     (let score = 0;
          score = (if js_includes modelName ''2.0'' then score + 100
                   else if js_includes modelName ''1.5'' then score + 50
                   else if js_includes modelName ''1.0'' then score + 10
                   else score);
          score = (if js_includes modelName ''ultra'' then score + 30
                   else if js_includes modelName ''pro'' then score + 20
                   else if js_includes modelName ''flash'' then score + 15
                   else score);
          score = (if js_includes modelName ''vision'' then score + 25 else score)
      in score)"

definition isBetterModel_001 :: "string \<Rightarrow> string \<Rightarrow> bool" where
  "isBetterModel_001 newModel currentModel =
     (getModelScore_001 newModel > getModelScore_001 currentModel)"

text \<open>
  The generation a scorer assigns to an identifier: both versions test the markers
  \<open>2.0\<close>, \<open>1.5\<close> and \<open>1.0\<close> in this order, and the first one found decides.
\<close>

definition generationMarker :: "string \<Rightarrow> string option" where
  "generationMarker modelName =
     (if js_includes modelName ''2.0'' then Some ''2.0''
      else if js_includes modelName ''1.5'' then Some ''1.5''
      else if js_includes modelName ''1.0'' then Some ''1.0''
      else None)"

section \<open>Model discovery\<close>

text \<open>
  The process-wide \<open>availableModels\<close> object.  Its fields \<open>text\<close>, \<open>vision\<close> and
  \<open>allModels\<close> carry the prefix \<open>am_\<close> here.  An element of \<open>allModels\<close> is what
  \<open>m.name\<close> gave for a listed entry, or a candidate the probing loop has pushed:
  \<open>Some name\<close> is a string, \<open>None\<close> stands for \<open>undefined\<close> (or any other value
  that is not a string), the name of a listed entry that has none.
\<close>

record availableModels =
  am_text :: "string option"
  am_vision :: "string option"
  am_allModels :: "string option list"

definition availableModels_init :: availableModels where
  "availableModels_init = \<lparr>am_text = None, am_vision = None, am_allModels = []\<rparr>"

text \<open>
  The generative-AI SDK is an external collaborator.  A call that throws (or whose
  promise rejects) is \<open>Inl message\<close>.
  \<^item> \<open>listModels\<close>: \<open>Inr None\<close> is a response without a \<open>models\<close> array,
    \<open>Inr (Some names)\<close> a response whose \<open>models\<close> array maps to \<open>names\<close> under
    \<open>m => m.name\<close>; a response on which this \<open>map\<close> itself throws is caught where
    a throwing \<open>listModels\<close> is caught, and counts as \<open>Inl\<close>;
  \<^item> \<open>generateTest i m\<close>: the liveness request \<open>generateContent("Test")\<close> to model
    \<open>m\<close> in iteration \<open>i\<close> of the probing loop (a name may occur twice in the
    catalog, and the service may answer differently each time);
  \<^item> \<open>generateImage i m\<close>: the multimodal request with the one-pixel image.
\<close>

record genAI =
  listModels :: "string + string option list option"
  generateTest :: "nat \<Rightarrow> string \<Rightarrow> string + unit"
  generateImage :: "nat \<Rightarrow> string \<Rightarrow> string + unit"

subsection \<open>Classification of a listed set (\<open>part_000\<close>)\<close>

text \<open>
  \<open>xs.sort((a, b) => getModelScore(b) - getModelScore(a))\<close> sorts by descending
  score, and \<open>Array.prototype.sort\<close> is stable: models of equal score keep their
  order.  This is \<^const>\<open>sort_key\<close> on the negated score.
\<close>

definition sortByScore_000 :: "string list \<Rightarrow> string list" where
  "sortByScore_000 xs = sort_key (\<lambda>m. - getModelScore_000 m) xs"

text \<open>
  Both versions start the classification of a listing with
  \<open>list.filter((m) => m.includes("vision"))\<close>.  On the first element that is not
  a string \<open>m.includes\<close> throws a \<open>TypeError\<close>, before anything is assigned;
  \<open>stringNames\<close> is \<open>None\<close> then, and otherwise the list as strings.
\<close>

fun stringNames :: "string option list \<Rightarrow> string list option" where
  "stringNames [] = Some []"
| "stringNames (None # ms) = None"
| "stringNames (Some m # ms) = map_option ((#) m) (stringNames ms)"

definition identifyAndCategorizeModels ::
  "string option list \<Rightarrow> availableModels \<Rightarrow> string + availableModels" where
  "identifyAndCategorizeModels modelsList am =
     (case stringNames modelsList of
        None \<Rightarrow> Inl ''TypeError: m.includes is not a function''
      | Some names \<Rightarrow>
          (let explicitVisionModels = filter (\<lambda>m. js_includes m ''vision'') names;
               am = (case sortByScore_000 explicitVisionModels of
                       [] \<Rightarrow> am
                     | best # _ \<Rightarrow> am\<lparr>am_vision := Some best\<rparr>)
           in (case sortByScore_000 names of
                 [] \<Rightarrow> Inr am
               | best # _ \<Rightarrow> Inr (am\<lparr>am_text := Some best\<rparr>))))"

subsection \<open>Fallback probing (\<open>part_000\<close>)\<close>

definition visionModels_000 :: "string list" where
  "visionModels_000 =
     [''gemini-2.0-vision'', ''gemini-2.0-pro-vision'',
      ''gemini-1.5-pro-vision'', ''gemini-1.5-vision'', ''gemini-1.5-flash-vision'',
      ''gemini-pro-vision'', ''gemini-vision'',
      ''gemini-2.0-flash'', ''gemini-1.5-pro'', ''gemini-1.5-flash'']"

definition textModels_000 :: "string list" where
  "textModels_000 =
     [''gemini-2.0-pro'', ''gemini-2.0-flash'', ''gemini-1.5-pro'', ''gemini-1.5-flash'',
      ''gemini-pro'']"

definition allPotentialModels_000 :: "string list" where
  "allPotentialModels_000 = visionModels_000 @ textModels_000"

text \<open>
  The body of the loop after the liveness request has succeeded.  The last two
  comparisons read a slot that an earlier statement of the same iteration has
  filled; were it \<open>null\<close>, \<open>getModelScore\<close> would throw, the \<open>catch\<close> of the loop
  would log it, and the state would stay as it is at that point.
\<close>

definition modelAvailable_000 :: "genAI \<Rightarrow> nat \<Rightarrow> string \<Rightarrow> availableModels \<Rightarrow> availableModels" where
  "modelAvailable_000 api i modelName am =
     (let am = am\<lparr>am_allModels := am_allModels am @ [Some modelName]\<rparr>;
          am = (if \<not> js_includes modelName ''vision'' then
                  (case generateImage api i modelName of
                     Inr _ \<Rightarrow> if falsy (am_vision am) then am\<lparr>am_vision := Some modelName\<rparr> else am
                   | Inl _ \<Rightarrow> am)
                else if falsy (am_vision am) then am\<lparr>am_vision := Some modelName\<rparr> else am);
          am = (if falsy (am_text am) then am\<lparr>am_text := Some modelName\<rparr> else am);
          am = (if \<not> falsy (am_vision am) \<and> js_includes modelName ''vision'' then
                  (case am_vision am of
                     None \<Rightarrow> am
                   | Some current \<Rightarrow>
                       if isBetterModel_000 modelName current
                       then am\<lparr>am_vision := Some modelName\<rparr> else am)
                else am)
      in case am_text am of
           None \<Rightarrow> am
         | Some current \<Rightarrow>
             if isBetterModel_000 modelName current then am\<lparr>am_text := Some modelName\<rparr> else am)"

text \<open>One iteration: a failed liveness request is caught and the candidate skipped.\<close>

definition probeModel_000 :: "genAI \<Rightarrow> nat \<times> string \<Rightarrow> availableModels \<Rightarrow> availableModels" where
  "probeModel_000 api c am =
     (case generateTest api (fst c) (snd c) of
        Inl _ \<Rightarrow> am
      | Inr _ \<Rightarrow> modelAvailable_000 api (fst c) (snd c) am)"

fun probeLoop_000 :: "genAI \<Rightarrow> (nat \<times> string) list \<Rightarrow> availableModels \<Rightarrow> availableModels" where
  "probeLoop_000 api [] am = am"
| "probeLoop_000 api (c # cs) am = probeLoop_000 api cs (probeModel_000 api c am)"

text \<open>
  \<open>discoverAvailableModels\<close> of \<open>part_000\<close>.  The result pairs what the caller
  gets (\<open>Inl\<close> would be an exception that escapes, \<open>Inr b\<close> the returned boolean)
  with the state left behind.  The probing of the catalog ends with
  \<open>return availableModels.allModels.length > 0\<close>.
\<close>

definition probeCatalog_000 :: "genAI \<Rightarrow> availableModels \<Rightarrow> (string + bool) \<times> availableModels" where
  "probeCatalog_000 api am =
     (let am = probeLoop_000 api (enumerate 0 allPotentialModels_000) am
      in (Inr (length (am_allModels am) > 0), am))"

text \<open>
  The listing and its classification share one \<open>try\<close>.  \<open>allModels\<close> is assigned
  before \<open>identifyAndCategorizeModels\<close> runs; when that throws, the \<open>catch\<close> logs
  that the models could not be listed and control falls through to the probing,
  with the assigned \<open>allModels\<close> still in place.  Every other SDK call sits in a
  \<open>try\<close> of its own; the outer \<open>catch\<close> would turn anything else into
  \<open>return false\<close>.
\<close>

definition discoverBody_000 :: "genAI \<Rightarrow> availableModels \<Rightarrow> (string + bool) \<times> availableModels" where
  "discoverBody_000 api am =
     (case listModels api of
        Inl _ \<Rightarrow> probeCatalog_000 api am
      | Inr None \<Rightarrow> probeCatalog_000 api am
      | Inr (Some names) \<Rightarrow>
          if length names > 0 then
            (let am = am\<lparr>am_allModels := names\<rparr>
             in case identifyAndCategorizeModels names am of
                  Inr am' \<Rightarrow> (Inr True, am')
                | Inl _ \<Rightarrow> probeCatalog_000 api am)
          else probeCatalog_000 api am)"

definition discoverAvailableModels_000 :: "genAI \<Rightarrow> availableModels \<Rightarrow> (string + bool) \<times> availableModels" where
  "discoverAvailableModels_000 api am =
     (case discoverBody_000 api am of
        (Inl _, am') \<Rightarrow> (Inr False, am')
      | (Inr b, am') \<Rightarrow> (Inr b, am'))"

subsection \<open>Discovery (\<open>part_001\<close>)\<close>

definition sortByScore_001 :: "string list \<Rightarrow> string list" where
  "sortByScore_001 xs = sort_key (\<lambda>m. - getModelScore_001 m) xs"

definition potentialModels_001 :: "string list" where
  "potentialModels_001 =
     [''gemini-2.0-vision'', ''gemini-1.5-vision'', ''gemini-1.5-pro-vision'',
      ''gemini-pro-vision'', ''gemini-vision'',
      ''gemini-2.0-pro-vision'', ''gemini-ultra-vision'',
      ''gemini-2.0-flash'', ''gemini-2.0-pro'', ''gemini-1.5-flash'', ''gemini-1.5-pro'',
      ''gemini-pro'']"

definition modelAvailable_001 :: "string \<Rightarrow> availableModels \<Rightarrow> availableModels" where
  "modelAvailable_001 modelName am =
     (let am = am\<lparr>am_allModels := am_allModels am @ [Some modelName]\<rparr>
      in if js_includes modelName ''vision'' then
           (if falsy (am_vision am) then am\<lparr>am_vision := Some modelName\<rparr>
            else case am_vision am of
                   None \<Rightarrow> am
                 | Some current \<Rightarrow>
                     if isBetterModel_001 modelName current
                     then am\<lparr>am_vision := Some modelName\<rparr> else am)
         else
           (if falsy (am_text am) then am\<lparr>am_text := Some modelName\<rparr>
            else case am_text am of
                   None \<Rightarrow> am
                 | Some current \<Rightarrow>
                     if isBetterModel_001 modelName current
                     then am\<lparr>am_text := Some modelName\<rparr> else am))"

definition probeModel_001 :: "genAI \<Rightarrow> nat \<times> string \<Rightarrow> availableModels \<Rightarrow> availableModels" where
  "probeModel_001 api c am =
     (case generateTest api (fst c) (snd c) of
        Inl _ \<Rightarrow> am
      | Inr _ \<Rightarrow> modelAvailable_001 (snd c) am)"

fun probeLoop_001 :: "genAI \<Rightarrow> (nat \<times> string) list \<Rightarrow> availableModels \<Rightarrow> availableModels" where
  "probeLoop_001 api [] am = am"
| "probeLoop_001 api (c # cs) am = probeLoop_001 api cs (probeModel_001 api c am)"

text \<open>
  The branch of \<open>part_001\<close> that classifies the models returned by the API.  It
  stands outside the \<open>try\<close> of the listing: a \<open>TypeError\<close> of its first \<open>filter\<close>
  reaches the outer \<open>catch\<close>.
\<close>

definition processListed_001 :: "availableModels \<Rightarrow> string + availableModels" where
  "processListed_001 am =
     (case stringNames (am_allModels am) of
        None \<Rightarrow> Inl ''TypeError: m.includes is not a function''
      | Some names \<Rightarrow>
          (let visionModels = filter (\<lambda>m. js_includes m ''vision'') names;
               am = (case sortByScore_001 visionModels of
                       [] \<Rightarrow> am
                     | best # _ \<Rightarrow> am\<lparr>am_vision := Some best\<rparr>);
               textModels = filter (\<lambda>m. \<not> js_includes m ''vision'') names
           in (case sortByScore_001 textModels of
                 [] \<Rightarrow> Inr am
               | best # _ \<Rightarrow> Inr (am\<lparr>am_text := Some best\<rparr>))))"

definition discoverBody_001 :: "genAI \<Rightarrow> availableModels \<Rightarrow> (string + bool) \<times> availableModels" where
  "discoverBody_001 api am =
     (let am = (case listModels api of
                  Inr (Some names) \<Rightarrow> am\<lparr>am_allModels := names\<rparr>
                | _ \<Rightarrow> am)
      in case (if length (am_allModels am) = 0
               then Inr (probeLoop_001 api (enumerate 0 potentialModels_001) am)
               else processListed_001 am) of
           Inl e \<Rightarrow> (Inl e, am)
         | Inr am \<Rightarrow>
             if falsy (am_text am) \<and> falsy (am_vision am) then (Inr False, am)
             else (Inr True, am))"

definition discoverAvailableModels_001 :: "genAI \<Rightarrow> availableModels \<Rightarrow> (string + bool) \<times> availableModels" where
  "discoverAvailableModels_001 api am =
     (case discoverBody_001 api am of
        (Inl _, am') \<Rightarrow> (Inr False, am')
      | (Inr b, am') \<Rightarrow> (Inr b, am'))"

subsection \<open>Whole-set selection\<close>

text \<open>
  The selection the specification compares the probing loop with: score every
  discovered model and take one of maximal score, the first-discovered among
  equals.
\<close>

definition firstBest :: "(string \<Rightarrow> int) \<Rightarrow> string list \<Rightarrow> string option" where
  "firstBest score xs =
     (if xs = [] then None
      else List.find (\<lambda>m. score m = Max (set (map score xs))) xs)"

text \<open>
  The candidates whose liveness request succeeded, in the order of the catalog,
  and what the listing has left in \<open>allModels\<close> when the probing starts.
\<close>

definition answered :: "genAI \<Rightarrow> (nat \<times> string) list \<Rightarrow> string list" where
  "answered api cs = map snd (filter (\<lambda>c. \<not> isl (generateTest api (fst c) (snd c))) cs)"

definition listedNames :: "genAI \<Rightarrow> string option list" where
  "listedNames api = (case listModels api of Inr (Some names) \<Rightarrow> names | _ \<Rightarrow> [])"

text \<open>A candidate of the probing loop of \<open>part_000\<close> that passes the multimodal probe.\<close>

definition passesVisionProbe :: "genAI \<Rightarrow> nat \<times> string \<Rightarrow> bool" where
  "passesVisionProbe api c \<longleftrightarrow>
     \<not> isl (generateTest api (fst c) (snd c)) \<and>
     \<not> js_includes (snd c) ''vision'' \<and>
     \<not> isl (generateImage api (fst c) (snd c))"

section \<open>Request relay: the chat endpoint\<close>

text \<open>
  The handler of \<open>POST /api/chat\<close> is the same in both versions of the server.
  The messages of an array are objects with a string \<open>role\<close> and \<open>content\<close>.
  \<open>req.body.messages\<close> is absent (or another falsy value), some value that is not
  an array, or an array of messages.
\<close>

record chat_message =
  role :: string
  content :: string

datatype messages_field = NoMessages | NotAnArray | MessagesArray "chat_message list"

record chat_request =
  requestedModel :: "string option"
  messages :: messages_field

datatype response_body =
    ErrorBody string "string option"
  | ContentBody string string

record http_response =
  status :: nat
  body :: response_body

text \<open>
  The one upstream call of the handler is \<open>chat.sendMessage(prompt)\<close> on a chat
  started for \<open>modelName\<close> with \<open>history\<close>; \<open>Inl message\<close> is a thrown error,
  \<open>Inr text\<close> the generated text.  \<open>getGenerativeModel\<close> and \<open>startChat()\<close> without
  a history only build local objects.  \<open>startChat({history})\<close>, taken when the
  history is not empty, lets the SDK check the history and may throw before
  anything is sent: \<open>startChatWithHistory\<close>.  The handler returns the response
  together with the upstream calls it has made.
\<close>

datatype upstream_call = SendMessage string "(string \<times> string) list" string

record upstream =
  startChatWithHistory :: "string \<Rightarrow> (string \<times> string) list \<Rightarrow> string + unit"
  sendMessage :: "string \<Rightarrow> (string \<times> string) list \<Rightarrow> string \<Rightarrow> string + string"

definition chatErrorResponse :: "string \<Rightarrow> http_response" where
  "chatErrorResponse message =
     (let errorDetails = message;
          statusCode = 500;
          (errorDetails, statusCode) =
            (if js_includes message ''API key not valid''
             then (''Invalid API key. Please check your Gemini API key configuration.'', 401)
             else if js_includes message ''not found''
             then (''The requested model was not found. Please check your model name.'', 404)
             else if js_includes message ''quota''
             then (''API quota exceeded. Please try again later or check your usage limits.'', 429)
             else (errorDetails, statusCode))
      in \<lparr>status = statusCode,
          body = ErrorBody ''An error occurred while processing your request'' (Some errorDetails)\<rparr>)"

definition chatHandler ::
  "upstream \<Rightarrow> availableModels \<Rightarrow> chat_request \<Rightarrow> http_response \<times> upstream_call list" where
  "chatHandler up am req =
     (case messages req of
        NoMessages \<Rightarrow> (\<lparr>status = 400, body = ErrorBody ''Invalid messages format'' None\<rparr>, [])
      | NotAnArray \<Rightarrow> (\<lparr>status = 400, body = ErrorBody ''Invalid messages format'' None\<rparr>, [])
      | MessagesArray msgs \<Rightarrow>
          if falsy (am_text am) then
            (\<lparr>status = 503,
              body = ErrorBody ''No working text model available''
                (Some ''The server could not find any working Gemini text models'')\<rparr>, [])
          else
            (let modelName = (case requestedModel req of
                                None \<Rightarrow> (case am_text am of None \<Rightarrow> [] | Some t \<Rightarrow> t)
                              | Some r \<Rightarrow>
                                  if r = [] then (case am_text am of None \<Rightarrow> [] | Some t \<Rightarrow> t)
                                  else r);
                 history = map (\<lambda>msg. (if role msg = ''assistant'' then ''model'' else ''user'',
                                        content msg)) (butlast msgs);
                 prompt = (if msgs \<noteq> [] \<and> role (last msgs) = ''user''
                           then content (last msgs) else [])
             in (case (if history \<noteq> [] then startChatWithHistory up modelName history
                      else Inr ()) of
                  Inl message \<Rightarrow> (chatErrorResponse message, [])
                | Inr _ \<Rightarrow>
                    (case sendMessage up modelName history prompt of
                       Inr reply \<Rightarrow>
                         (\<lparr>status = 200, body = ContentBody reply modelName\<rparr>,
                          [SendMessage modelName history prompt])
                     | Inl message \<Rightarrow>
                         (chatErrorResponse message,
                          [SendMessage modelName history prompt])))))"

section \<open>Analytics aggregator\<close>

text \<open>
  \<open>conversationStats\<close> of \<open>src/analytics.js\<close>.  The nested objects \<open>tokenUsage\<close>
  and \<open>characterCounts\<close> are flattened, their field names prefixed.  Counters are
  integers (JavaScript numbers are exact on integers below \<open>2^53\<close>); times in
  seconds are exact reals, where the source has doubles.  \<open>lastQuery\<close> is \<open>null\<close>
  or a millisecond timestamp.  \<open>saveStats\<close> and \<open>updateUI\<close>, called at the end of
  every operation, write the state to local storage and to the page and leave
  it unchanged; they are not part of the model.
\<close>

record dayCounts =
  day_user :: int
  day_ai :: int

record responseSample =
  sample_time :: string
  duration :: real

record conversationStats =
  totalMessages :: int
  userMessages :: int
  aiMessages :: int
  avgResponseTime :: real
  totalResponseTime :: real
  messagesByDate :: "string \<rightharpoonup> dayCounts"
  tokenUsage_input :: int
  tokenUsage_output :: int
  tokenUsage_total :: int
  imageCounts :: int
  characterCounts_user :: int
  characterCounts_ai :: int
  responseTimeHistory :: "responseSample list"
  lastQuery :: "int option"

text \<open>
  One reading of the clock: \<open>Date.now()\<close> in milliseconds and
  \<open>new Date().toISOString()\<close>.  An operation reads the clock up to three times
  in a row; the model gives it one reading.
\<close>

record clock =
  dateNow :: int
  isoString :: string

definition TOKENS_PER_CHAR :: real where
  "TOKENS_PER_CHAR = 0.25"

definition estimatedTokens :: "string \<Rightarrow> int" where
  "estimatedTokens message = \<lceil>real (length message) * TOKENS_PER_CHAR\<rceil>"

text \<open>\<open>new Date().toISOString().split('T')[0]\<close>: the text before the first \<open>T\<close>.\<close>

definition today :: "clock \<Rightarrow> string" where
  "today c = takeWhile (\<lambda>ch. ch \<noteq> CHR ''T'') (isoString c)"

definition zeroStats :: conversationStats where
  "zeroStats =
     \<lparr>totalMessages = 0, userMessages = 0, aiMessages = 0,
      avgResponseTime = 0, totalResponseTime = 0,
      messagesByDate = Map.empty,
      tokenUsage_input = 0, tokenUsage_output = 0, tokenUsage_total = 0,
      imageCounts = 0,
      characterCounts_user = 0, characterCounts_ai = 0,
      responseTimeHistory = [], lastQuery = None\<rparr>"

definition resetStats :: "conversationStats \<Rightarrow> conversationStats" where
  "resetStats s = zeroStats"

text \<open>
  \<open>if (!messagesByDate[today]) messagesByDate[today] = {user: 0, ai: 0}\<close>, then
  the increment of one counter of that day.
\<close>

definition ensureDay :: "string \<Rightarrow> (string \<rightharpoonup> dayCounts) \<Rightarrow> (string \<rightharpoonup> dayCounts)" where
  "ensureDay d m = (case m d of None \<Rightarrow> m(d \<mapsto> \<lparr>day_user = 0, day_ai = 0\<rparr>) | Some _ \<Rightarrow> m)"

definition bumpDay ::
  "(dayCounts \<Rightarrow> dayCounts) \<Rightarrow> string \<Rightarrow> (string \<rightharpoonup> dayCounts) \<Rightarrow> (string \<rightharpoonup> dayCounts)" where
  "bumpDay f d m =
     (let m = ensureDay d m
      in case m d of None \<Rightarrow> m | Some counts \<Rightarrow> m(d \<mapsto> f counts))"

definition trackUserMessage :: "clock \<Rightarrow> string \<Rightarrow> conversationStats \<Rightarrow> conversationStats" where
  "trackUserMessage c message s =
     (let s = s\<lparr>userMessages := userMessages s + 1\<rparr>;
          s = s\<lparr>totalMessages := totalMessages s + 1\<rparr>;
          s = s\<lparr>characterCounts_user := characterCounts_user s + int (length message)\<rparr>;
          tokens = estimatedTokens message;
          s = s\<lparr>tokenUsage_input := tokenUsage_input s + tokens\<rparr>;
          s = s\<lparr>tokenUsage_total := tokenUsage_total s + tokens\<rparr>;
          s = s\<lparr>messagesByDate :=
                  bumpDay (\<lambda>d. d\<lparr>day_user := day_user d + 1\<rparr>) (today c) (messagesByDate s)\<rparr>
      in s\<lparr>lastQuery := Some (dateNow c)\<rparr>)"

definition trackImageUpload :: "conversationStats \<Rightarrow> conversationStats" where
  "trackImageUpload s = s\<lparr>imageCounts := imageCounts s + 1\<rparr>"

text \<open>
  \<open>if (conversationStats.lastQuery)\<close> is false for \<open>null\<close> and for the number \<open>0\<close>.
\<close>

definition recordResponseTime :: "clock \<Rightarrow> conversationStats \<Rightarrow> conversationStats" where
  "recordResponseTime c s =
     (case lastQuery s of
        None \<Rightarrow> s
      | Some t \<Rightarrow>
          if t = 0 then s
          else
            let responseTime = real_of_int (dateNow c - t) / 1000;
                s = s\<lparr>responseTimeHistory := responseTimeHistory s @
                        [\<lparr>sample_time = isoString c, duration = responseTime\<rparr>]\<rparr>;
                s = s\<lparr>totalResponseTime := totalResponseTime s + responseTime\<rparr>
            in s\<lparr>avgResponseTime :=
                   totalResponseTime s / real (length (responseTimeHistory s))\<rparr>)"

definition trackAIResponse :: "clock \<Rightarrow> string \<Rightarrow> conversationStats \<Rightarrow> conversationStats" where
  "trackAIResponse c response s =
     (let s = s\<lparr>aiMessages := aiMessages s + 1\<rparr>;
          s = s\<lparr>totalMessages := totalMessages s + 1\<rparr>;
          s = s\<lparr>characterCounts_ai := characterCounts_ai s + int (length response)\<rparr>;
          s = recordResponseTime c s;
          s = s\<lparr>lastQuery := None\<rparr>;
          tokens = estimatedTokens response;
          s = s\<lparr>tokenUsage_output := tokenUsage_output s + tokens\<rparr>;
          s = s\<lparr>tokenUsage_total := tokenUsage_total s + tokens\<rparr>
      in s\<lparr>messagesByDate :=
             bumpDay (\<lambda>d. d\<lparr>day_ai := day_ai d + 1\<rparr>) (today c) (messagesByDate s)\<rparr>)"

subsection \<open>State invariants\<close>

definition statsInvariant :: "conversationStats \<Rightarrow> bool" where
  "statsInvariant s \<longleftrightarrow>
     totalMessages s = userMessages s + aiMessages s \<and>
     (responseTimeHistory s \<noteq> [] \<longrightarrow>
        avgResponseTime s = totalResponseTime s / real (length (responseTimeHistory s)))"

definition tokenInvariant :: "conversationStats \<Rightarrow> bool" where
  "tokenInvariant s \<longleftrightarrow> tokenUsage_total s = tokenUsage_input s + tokenUsage_output s"

section \<open>Invariants of the probing loops\<close>

text \<open>
  What each probing loop maintains between iterations, in terms of the list
  \<open>xs\<close> of the candidates that have answered so far.
\<close>

definition selected_001 :: "availableModels \<Rightarrow> string list \<Rightarrow> bool" where
  "selected_001 am xs \<longleftrightarrow>
     am_vision am = firstBest getModelScore_001 (filter (\<lambda>m. js_includes m ''vision'') xs) \<and>
     am_text am = firstBest getModelScore_001 (filter (\<lambda>m. \<not> js_includes m ''vision'') xs) \<and>
     [] \<notin> set xs"

definition textSelected_000 :: "availableModels \<Rightarrow> string list \<Rightarrow> bool" where
  "textSelected_000 am xs \<longleftrightarrow>
     am_text am = firstBest getModelScore_000 xs \<and> [] \<notin> set xs"

definition visionSelected_000 :: "availableModels \<Rightarrow> string list \<Rightarrow> bool" where
  "visionSelected_000 am xs \<longleftrightarrow>
     am_vision am = firstBest getModelScore_000 (filter (\<lambda>m. js_includes m ''vision'') xs)"

text \<open>
  The catalog of \<open>part_000\<close> starts with its seven candidates named \<open>vision\<close>; none
  of the eight that follow carries the marker.
\<close>

definition namedCandidates_000 :: "string list" where
  "namedCandidates_000 = take 7 allPotentialModels_000"

definition unnamedCandidates_000 :: "string list" where
  "unnamedCandidates_000 = drop 7 allPotentialModels_000"

section \<open>Example collaborators\<close>

text \<open>
  Concrete services and clock readings on which the theorems below are run.
  \<^item> \<open>deadApi\<close>: no listing, every request rejected;
  \<^item> \<open>probeOnlyApi\<close>: no listing; only \<open>gemini-1.5-flash\<close> and \<open>gemini-2.0-pro\<close>
    answer, and both accept an image;
  \<^item> \<open>legacyVisionApi\<close>: no listing; \<open>gemini-pro-vision\<close>, \<open>gemini-2.0-flash\<close> and
    \<open>gemini-1.5-flash\<close> answer and accept an image;
  \<^item> \<open>namelessListingApi\<close>: the listing has one entry, without a name; every
    request is rejected;
  \<^item> \<open>helloUpstream\<close>: a chat service that answers every prompt with \<open>Hello\<close>.
\<close>

definition deadApi :: genAI where
  "deadApi =
     \<lparr>listModels = Inl ''genAI.listModels is not a function'',
      generateTest = (\<lambda>i m. Inl ''API key not valid''),
      generateImage = (\<lambda>i m. Inl ''API key not valid'')\<rparr>"

definition probeOnlyApi :: genAI where
  "probeOnlyApi =
     \<lparr>listModels = Inl ''genAI.listModels is not a function'',
      generateTest = (\<lambda>i m. if m = ''gemini-1.5-flash'' \<or> m = ''gemini-2.0-pro''
                              then Inr () else Inl ''model not found''),
      generateImage = (\<lambda>i m. Inr ())\<rparr>"

definition legacyVisionApi :: genAI where
  "legacyVisionApi =
     \<lparr>listModels = Inl ''genAI.listModels is not a function'',
      generateTest = (\<lambda>i m. if m = ''gemini-pro-vision'' \<or> m = ''gemini-2.0-flash''
                                 \<or> m = ''gemini-1.5-flash''
                              then Inr () else Inl ''model not found''),
      generateImage = (\<lambda>i m. Inr ())\<rparr>"

definition namelessListingApi :: genAI where
  "namelessListingApi =
     \<lparr>listModels = Inr (Some [None]),
      generateTest = (\<lambda>i m. Inl ''API key not valid''),
      generateImage = (\<lambda>i m. Inl ''API key not valid'')\<rparr>"

definition helloUpstream :: upstream where
  "helloUpstream =
     \<lparr>startChatWithHistory = (\<lambda>modelName history. Inr ()),
      sendMessage = (\<lambda>modelName history prompt. Inr ''Hello'')\<rparr>"

definition flashOnly :: availableModels where
  "flashOnly =
     \<lparr>am_text = Some ''gemini-2.0-flash'', am_vision = None,
      am_allModels = [Some ''gemini-2.0-flash'']\<rparr>"

definition clockAsk :: clock where
  "clockAsk = \<lparr>dateNow = 1735689601000, isoString = ''2025-01-01T00:00:01.000Z''\<rparr>"

definition clockAnswer :: clock where
  "clockAnswer = \<lparr>dateNow = 1735689602500, isoString = ''2025-01-01T00:00:02.500Z''\<rparr>"

section \<open>Evaluation and substring lemmas\<close>

lemmas score_eval =
  getModelScore_000_def getModelScore_001_def isBetterModel_000_def isBetterModel_001_def
  generationMarker_def js_includes_def sublist_code(3)

lemmas discover_eval =
  discoverAvailableModels_000_def discoverBody_000_def probeCatalog_000_def
  identifyAndCategorizeModels_def allPotentialModels_000_def
  visionModels_000_def textModels_000_def probeModel_000_def modelAvailable_000_def
  discoverAvailableModels_001_def discoverBody_001_def potentialModels_001_def
  probeModel_001_def modelAvailable_001_def availableModels_init_def
  score_eval Let_def

text \<open>
  Appending \<open>c # s\<close> to \<open>x\<close> creates no new occurrence of a text \<open>t\<close> that
  neither contains \<open>c\<close> nor occurs in \<open>c # s\<close>.
\<close>

lemma sublist_append_fresh:
  assumes "c \<notin> set t" and "\<not> sublist t (c # s)"
  shows "sublist t (x @ c # s) \<longleftrightarrow> sublist t x"
proof
  assume "sublist t (x @ c # s)"
  then consider "sublist t x" | "sublist t (c # s)"
    | t1 t2 where "t = t1 @ t2" "suffix t1 x" "prefix t2 (c # s)"
    by (auto simp: sublist_append)
  then show "sublist t x"
  proof cases
    case 1
    then show ?thesis .
  next
    case 2
    with assms show ?thesis by simp
  next
    case 3
    show ?thesis
    proof (cases t2)
      case Nil
      with 3 have "suffix t x" by simp
      then show ?thesis by (rule suffix_imp_sublist)
    next
      case (Cons d ds)
      with 3 have "d = c" by simp
      with Cons 3 assms show ?thesis by simp
    qed
  qed
next
  assume "sublist t x"
  then show "sublist t (x @ c # s)"
    by (metis sublist_append)
qed

lemma includes_vision_suffix: "js_includes (x @ ''-vision'') ''vision''"
proof -
  have "sublist ''vision'' ((x @ ''-'') @ ''vision'' @ [])" by (rule sublist_appendI)
  then show ?thesis by (simp add: js_includes_def)
qed

lemma includes_marker_suffix:
  assumes "t \<in> {''2.0'', ''1.5'', ''1.0'', ''pro'', ''flash'', ''ultra''}"
  shows "js_includes (x @ ''-vision'') t = js_includes x t"
  unfolding js_includes_def
  using assms by (intro sublist_append_fresh) (auto simp: sublist_code(3))

lemma not_includes_Nil [simp]: "\<not> js_includes [] ''vision''"
  by (simp add: js_includes_def)

section \<open>The first best of a list\<close>

lemma find_append:
  "List.find P (xs @ ys) = (case List.find P xs of None \<Rightarrow> List.find P ys | Some x \<Rightarrow> Some x)"
  by (induction xs) auto

lemma firstBest_in_set: "firstBest f xs = Some b \<Longrightarrow> b \<in> set xs"
  by (auto simp: firstBest_def find_Some_iff split: if_splits)

lemma firstBest_None [simp]: "firstBest f xs = None \<longleftrightarrow> xs = []"
proof
  assume n: "firstBest f xs = None"
  show "xs = []"
  proof (rule ccontr)
    assume ne: "xs \<noteq> []"
    then have "Max (set (map f xs)) \<in> set (map f xs)"
      by (intro Max_in) auto
    then obtain x where "x \<in> set xs" "f x = Max (set (map f xs))" by auto
    with n ne show False by (auto simp: firstBest_def find_None_iff)
  qed
qed (simp add: firstBest_def)

text \<open>
  The first best of a list extended at its end: the newcomer wins only with a
  strictly higher score.  This is the step of the incremental selection.
\<close>

lemma firstBest_snoc:
  "firstBest f (xs @ [m]) =
     (case firstBest f xs of
        None \<Rightarrow> Some m
      | Some b \<Rightarrow> if f b < f m then Some m else Some b)"
proof (cases "xs = []")
  case True
  then show ?thesis by (simp add: firstBest_def)
next
  case False
  then obtain b where b: "firstBest f xs = Some b"
    by (cases "firstBest f xs") auto
  let ?M = "Max (f ` set xs)"
  from b False have fb: "List.find (\<lambda>x. f x = ?M) xs = Some b"
    by (simp add: firstBest_def)
  then have bM: "f b = ?M" by (auto simp: find_Some_iff)
  have le: "f x \<le> ?M" if "x \<in> set xs" for x
    using that by (intro Max_ge) auto
  have M': "Max (insert (f m) (f ` set xs)) = max (f m) ?M"
    using False by simp
  have fb_snoc: "firstBest f (xs @ [m]) =
    (case List.find (\<lambda>x. f x = max (f m) ?M) xs of
       None \<Rightarrow> List.find (\<lambda>x. f x = max (f m) ?M) [m]
     | Some x \<Rightarrow> Some x)"
    by (simp add: firstBest_def find_append M' del: Max_insert find.simps)
  show ?thesis
  proof (cases "f b < f m")
    case True
    have "f x \<noteq> f m" if "x \<in> set xs" for x
      using le [OF that] bM True by simp
    then have none: "List.find (\<lambda>x. f x = f m) xs = None"
      by (simp add: find_None_iff)
    from True bM have "max (f m) ?M = f m" by simp
    with none b True show ?thesis unfolding fb_snoc by simp
  next
    case False
    with bM have "max (f m) ?M = ?M" by simp
    with fb b False show ?thesis unfolding fb_snoc by simp
  qed
qed

text \<open>
  A slot that holds the first best of a list of non-empty names, updated the way
  both loops do it: filled when falsy, replaced when the newcomer is better.
\<close>

lemma slot_step:
  assumes "slot = firstBest f xs" and "[] \<notin> set xs" and "m \<noteq> []"
  shows "(if falsy slot then Some m
          else case slot of None \<Rightarrow> Some m
               | Some t \<Rightarrow> if f m > f t then Some m else Some t) = firstBest f (xs @ [m])"
proof (cases slot)
  case None
  with assms show ?thesis by (simp add: firstBest_snoc)
next
  case (Some t)
  with assms have "t \<in> set xs" by (metis firstBest_in_set)
  with assms have "t \<noteq> []" by auto
  with Some assms show ?thesis by (simp add: firstBest_snoc)
qed

section \<open>One iteration of a probing loop\<close>

lemma allModels_modelAvailable_000 [simp]:
  "am_allModels (modelAvailable_000 api i m am) = am_allModels am @ [Some m]"
  by (simp add: modelAvailable_000_def Let_def split: sum.splits option.splits)

lemma text_modelAvailable_000:
  "am_text (modelAvailable_000 api i m am) =
     (if falsy (am_text am) then Some m
      else case am_text am of None \<Rightarrow> Some m
           | Some t \<Rightarrow> if isBetterModel_000 m t then Some m else Some t)"
  by (simp add: modelAvailable_000_def Let_def isBetterModel_000_def
      split: sum.splits option.splits)

lemma vision_modelAvailable_000:
  "am_vision (modelAvailable_000 api i m am) =
     (if js_includes m ''vision'' then
        (if falsy (am_vision am) then Some m
         else case am_vision am of None \<Rightarrow> Some m
              | Some v \<Rightarrow> if isBetterModel_000 m v then Some m else Some v)
      else if \<not> isl (generateImage api i m) \<and> falsy (am_vision am) then Some m
      else am_vision am)"
  by (auto simp add: modelAvailable_000_def Let_def isBetterModel_000_def
      split: sum.splits option.splits)

lemma allModels_modelAvailable_001 [simp]:
  "am_allModels (modelAvailable_001 m am) = am_allModels am @ [Some m]"
  by (simp add: modelAvailable_001_def Let_def split: option.splits)

lemma text_modelAvailable_001:
  "am_text (modelAvailable_001 m am) =
     (if js_includes m ''vision'' then am_text am
      else if falsy (am_text am) then Some m
      else case am_text am of None \<Rightarrow> Some m
           | Some t \<Rightarrow> if isBetterModel_001 m t then Some m else Some t)"
  by (simp add: modelAvailable_001_def Let_def split: option.splits)

lemma vision_modelAvailable_001:
  "am_vision (modelAvailable_001 m am) =
     (if \<not> js_includes m ''vision'' then am_vision am
      else if falsy (am_vision am) then Some m
      else case am_vision am of None \<Rightarrow> Some m
           | Some t \<Rightarrow> if isBetterModel_001 m t then Some m else Some t)"
  by (simp add: modelAvailable_001_def Let_def split: option.splits)

section \<open>The candidates that answered\<close>

lemma answered_Nil [simp]: "answered api [] = []"
  by (simp add: answered_def)

lemma answered_Cons:
  "answered api (c # cs) =
     (if isl (generateTest api (fst c) (snd c)) then answered api cs
      else snd c # answered api cs)"
  by (simp add: answered_def)

lemma answered_append: "answered api (xs @ ys) = answered api xs @ answered api ys"
  by (simp add: answered_def)

lemma answered_none:
  "\<forall>c\<in>set cs. isl (generateTest api (fst c) (snd c)) \<Longrightarrow> answered api cs = []"
  by (induction cs) (simp_all add: answered_Cons)

lemma probeModel_000_cases:
  "probeModel_000 api c am =
     (if isl (generateTest api (fst c) (snd c)) then am
      else modelAvailable_000 api (fst c) (snd c) am)"
  by (simp add: probeModel_000_def split: sum.splits)

lemma probeModel_001_cases:
  "probeModel_001 api c am =
     (if isl (generateTest api (fst c) (snd c)) then am
      else modelAvailable_001 (snd c) am)"
  by (simp add: probeModel_001_def split: sum.splits)

text \<open>The loops push exactly the candidates that answered, in order.\<close>

lemma allModels_probeLoop_000:
  "am_allModels (probeLoop_000 api cs am) = am_allModels am @ map Some (answered api cs)"
  by (induction cs arbitrary: am) (simp_all add: probeModel_000_cases answered_Cons)

lemma allModels_probeLoop_001:
  "am_allModels (probeLoop_001 api cs am) = am_allModels am @ map Some (answered api cs)"
  by (induction cs arbitrary: am) (simp_all add: probeModel_001_cases answered_Cons)

section \<open>The probing loop of \<open>part_001\<close>\<close>

lemma selected_001_step:
  assumes "selected_001 am xs" and "m \<noteq> []"
  shows "selected_001 (modelAvailable_001 m am) (xs @ [m])"
proof (cases "js_includes m ''vision''")
  case True
  let ?xs = "filter (\<lambda>m. js_includes m ''vision'') xs"
  have "(if falsy (am_vision am) then Some m
         else case am_vision am of None \<Rightarrow> Some m
              | Some t \<Rightarrow> if getModelScore_001 m > getModelScore_001 t then Some m else Some t)
        = firstBest getModelScore_001 (?xs @ [m])"
    using assms by (intro slot_step) (auto simp: selected_001_def)
  with True assms show ?thesis
    unfolding selected_001_def text_modelAvailable_001 vision_modelAvailable_001
      isBetterModel_001_def by simp
next
  case False
  let ?xs = "filter (\<lambda>m. \<not> js_includes m ''vision'') xs"
  have "(if falsy (am_text am) then Some m
         else case am_text am of None \<Rightarrow> Some m
              | Some t \<Rightarrow> if getModelScore_001 m > getModelScore_001 t then Some m else Some t)
        = firstBest getModelScore_001 (?xs @ [m])"
    using assms by (intro slot_step) (auto simp: selected_001_def)
  with False assms show ?thesis
    unfolding selected_001_def text_modelAvailable_001 vision_modelAvailable_001
      isBetterModel_001_def by simp
qed

lemma selected_001_loop:
  "selected_001 am xs \<Longrightarrow> \<forall>c\<in>set cs. snd c \<noteq> [] \<Longrightarrow>
   selected_001 (probeLoop_001 api cs am) (xs @ answered api cs)"
proof (induction cs arbitrary: am xs)
  case Nil
  then show ?case by simp
next
  case (Cons c cs)
  show ?case
  proof (cases "isl (generateTest api (fst c) (snd c))")
    case True
    with Cons show ?thesis by (simp add: probeModel_001_cases answered_Cons)
  next
    case False
    from Cons.prems have "selected_001 (modelAvailable_001 (snd c) am) (xs @ [snd c])"
      by (simp add: selected_001_step)
    then have "selected_001 (probeLoop_001 api cs (modelAvailable_001 (snd c) am))
        ((xs @ [snd c]) @ answered api cs)"
      using Cons.prems by (intro Cons.IH) simp_all
    with False show ?thesis by (simp add: probeModel_001_cases answered_Cons)
  qed
qed

lemma probeLoop_001_none:
  "\<forall>c\<in>set cs. isl (generateTest api (fst c) (snd c)) \<Longrightarrow> probeLoop_001 api cs am = am"
  by (induction cs arbitrary: am) (simp_all add: probeModel_001_cases)

section \<open>The probing loop of \<open>part_000\<close>\<close>

lemma probeLoop_000_none:
  "\<forall>c\<in>set cs. isl (generateTest api (fst c) (snd c)) \<Longrightarrow> probeLoop_000 api cs am = am"
  by (induction cs arbitrary: am) (simp_all add: probeModel_000_cases)

lemma probeLoop_000_append:
  "probeLoop_000 api (xs @ ys) am = probeLoop_000 api ys (probeLoop_000 api xs am)"
  by (induction xs arbitrary: am) auto

lemma textSelected_000_step:
  assumes "textSelected_000 am xs" and "m \<noteq> []"
  shows "textSelected_000 (modelAvailable_000 api i m am) (xs @ [m])"
proof -
  have "(if falsy (am_text am) then Some m
         else case am_text am of None \<Rightarrow> Some m
              | Some t \<Rightarrow> if getModelScore_000 m > getModelScore_000 t then Some m else Some t)
        = firstBest getModelScore_000 (xs @ [m])"
    using assms by (intro slot_step) (auto simp: textSelected_000_def)
  with assms show ?thesis
    unfolding textSelected_000_def text_modelAvailable_000 isBetterModel_000_def by simp
qed

lemma textSelected_000_loop:
  "textSelected_000 am xs \<Longrightarrow> \<forall>c\<in>set cs. snd c \<noteq> [] \<Longrightarrow>
   textSelected_000 (probeLoop_000 api cs am) (xs @ answered api cs)"
proof (induction cs arbitrary: am xs)
  case Nil
  then show ?case by simp
next
  case (Cons c cs)
  show ?case
  proof (cases "isl (generateTest api (fst c) (snd c))")
    case True
    with Cons show ?thesis by (simp add: probeModel_000_cases answered_Cons)
  next
    case False
    from Cons.prems
    have "textSelected_000 (modelAvailable_000 api (fst c) (snd c) am) (xs @ [snd c])"
      by (simp add: textSelected_000_step)
    then have "textSelected_000
        (probeLoop_000 api cs (modelAvailable_000 api (fst c) (snd c) am))
        ((xs @ [snd c]) @ answered api cs)"
      using Cons.prems by (intro Cons.IH) simp_all
    with False show ?thesis by (simp add: probeModel_000_cases answered_Cons)
  qed
qed

text \<open>While the candidates are named \<open>vision\<close>, the vision slot is their first best.\<close>

lemma visionSelected_000_step:
  assumes "visionSelected_000 am xs" and "js_includes m ''vision''"
  shows "visionSelected_000 (modelAvailable_000 api i m am) (xs @ [m])"
proof -
  let ?xs = "filter (\<lambda>m. js_includes m ''vision'') xs"
  have "[] \<notin> set ?xs" by auto
  moreover from assms have "m \<noteq> []" by auto
  ultimately have "(if falsy (am_vision am) then Some m
         else case am_vision am of None \<Rightarrow> Some m
              | Some t \<Rightarrow> if getModelScore_000 m > getModelScore_000 t then Some m else Some t)
        = firstBest getModelScore_000 (?xs @ [m])"
    using assms by (intro slot_step) (auto simp: visionSelected_000_def)
  with assms show ?thesis
    unfolding visionSelected_000_def vision_modelAvailable_000 isBetterModel_000_def by simp
qed

lemma visionSelected_000_loop:
  "visionSelected_000 am xs \<Longrightarrow> \<forall>c\<in>set cs. js_includes (snd c) ''vision'' \<Longrightarrow>
   visionSelected_000 (probeLoop_000 api cs am) (xs @ answered api cs)"
proof (induction cs arbitrary: am xs)
  case Nil
  then show ?case by simp
next
  case (Cons c cs)
  show ?case
  proof (cases "isl (generateTest api (fst c) (snd c))")
    case True
    with Cons show ?thesis by (simp add: probeModel_000_cases answered_Cons)
  next
    case False
    from Cons.prems
    have "visionSelected_000 (modelAvailable_000 api (fst c) (snd c) am) (xs @ [snd c])"
      by (simp add: visionSelected_000_step)
    then have "visionSelected_000
        (probeLoop_000 api cs (modelAvailable_000 api (fst c) (snd c) am))
        ((xs @ [snd c]) @ answered api cs)"
      using Cons.prems by (intro Cons.IH) simp_all
    with False show ?thesis by (simp add: probeModel_000_cases answered_Cons)
  qed
qed

text \<open>
  Candidates without the marker add no named model, leave a filled vision slot
  alone, and fill an empty one with the first of them that passes the image probe.
\<close>

lemma named_none_000:
  "\<forall>c\<in>set cs. \<not> js_includes (snd c) ''vision'' \<Longrightarrow>
   filter (\<lambda>m. js_includes m ''vision'') (answered api cs) = []"
  by (induction cs) (simp_all add: answered_Cons)

lemma vision_kept_000:
  "\<not> falsy (am_vision am) \<Longrightarrow> \<forall>c\<in>set cs. \<not> js_includes (snd c) ''vision'' \<Longrightarrow>
   am_vision (probeLoop_000 api cs am) = am_vision am"
  by (induction cs arbitrary: am)
     (auto simp: probeModel_000_def vision_modelAvailable_000 split: sum.splits)

lemma vision_first_probe_000:
  "am_vision am = None \<Longrightarrow> \<forall>c\<in>set cs. \<not> js_includes (snd c) ''vision'' \<and> snd c \<noteq> [] \<Longrightarrow>
   am_vision (probeLoop_000 api cs am) = map_option snd (List.find (passesVisionProbe api) cs)"
proof (induction cs arbitrary: am)
  case Nil
  then show ?case by simp
next
  case (Cons c cs)
  show ?case
  proof (cases "passesVisionProbe api c")
    case True
    with Cons.prems have "am_vision (probeModel_000 api c am) = Some (snd c)"
      by (auto simp: passesVisionProbe_def probeModel_000_def vision_modelAvailable_000
          split: sum.splits)
    moreover from Cons.prems have "snd c \<noteq> []" by simp
    ultimately have "am_vision (probeLoop_000 api cs (probeModel_000 api c am)) = Some (snd c)"
      using Cons.prems by (simp add: vision_kept_000)
    with True show ?thesis by simp
  next
    case False
    with Cons.prems have "am_vision (probeModel_000 api c am) = None"
      by (auto simp: passesVisionProbe_def probeModel_000_def vision_modelAvailable_000
          split: sum.splits)
    with Cons False show ?thesis by simp
  qed
qed

section \<open>The catalogs\<close>

lemma snd_enumerate_in: "c \<in> set (enumerate n xs) \<Longrightarrow> snd c \<in> set xs"
  by (metis imageI map_snd_enumerate set_map)

lemma names_nonempty_000: "\<forall>c\<in>set (enumerate n allPotentialModels_000). snd c \<noteq> []"
proof -
  have "[] \<notin> set allPotentialModels_000"
    by (simp add: allPotentialModels_000_def visionModels_000_def textModels_000_def)
  then show ?thesis by (metis snd_enumerate_in)
qed

lemma names_nonempty_001: "\<forall>c\<in>set (enumerate n potentialModels_001). snd c \<noteq> []"
proof -
  have "[] \<notin> set potentialModels_001"
    by (simp add: potentialModels_001_def)
  then show ?thesis by (metis snd_enumerate_in)
qed

lemma candidates_split_000:
  "enumerate 0 allPotentialModels_000 =
     enumerate 0 namedCandidates_000 @ enumerate 7 unnamedCandidates_000"
proof -
  have eq: "allPotentialModels_000 = namedCandidates_000 @ unnamedCandidates_000"
    by (simp add: namedCandidates_000_def unnamedCandidates_000_def)
  have len: "length namedCandidates_000 = 7"
    by (simp add: namedCandidates_000_def allPotentialModels_000_def visionModels_000_def)
  show ?thesis
    by (subst eq) (simp add: enumerate_append_eq len)
qed

lemma named_000: "\<forall>c\<in>set (enumerate n namedCandidates_000). js_includes (snd c) ''vision''"
proof -
  have "\<forall>m\<in>set namedCandidates_000. js_includes m ''vision''"
    by (simp add: namedCandidates_000_def allPotentialModels_000_def visionModels_000_def
        js_includes_def sublist_code(3))
  then show ?thesis by (metis snd_enumerate_in)
qed

lemma unnamed_000:
  "\<forall>c\<in>set (enumerate n unnamedCandidates_000). \<not> js_includes (snd c) ''vision'' \<and> snd c \<noteq> []"
proof -
  have "\<forall>m\<in>set unnamedCandidates_000. \<not> js_includes m ''vision'' \<and> m \<noteq> []"
    by (simp add: unnamedCandidates_000_def allPotentialModels_000_def visionModels_000_def
        textModels_000_def js_includes_def sublist_code(3))
  then show ?thesis by (metis snd_enumerate_in)
qed

text \<open>
  The vision slot after the whole catalog of \<open>part_000\<close>, from a state whose
  vision slot is empty.
\<close>

lemma vision_000:
  fixes api am
  defines "s \<equiv> probeLoop_000 api (enumerate 0 allPotentialModels_000) am"
  defines "named \<equiv> filter (\<lambda>m. js_includes m ''vision'')
    (answered api (enumerate 0 allPotentialModels_000))"
  assumes empty: "am_vision am = None"
  shows "(named \<noteq> [] \<longrightarrow> am_vision s = firstBest getModelScore_000 named) \<and>
         (named = [] \<longrightarrow> am_vision s =
            map_option snd (List.find (passesVisionProbe api) (enumerate 0 allPotentialModels_000)))"
proof -
  let ?E1 = "enumerate 0 namedCandidates_000" and ?E2 = "enumerate 7 unnamedCandidates_000"
  define s1 where "s1 = probeLoop_000 api ?E1 am"
  have s: "s = probeLoop_000 api ?E2 s1"
    by (simp add: s_def s1_def candidates_split_000 probeLoop_000_append)
  have "visionSelected_000 am []"
    using empty by (simp add: visionSelected_000_def firstBest_def)
  then have "visionSelected_000 s1 ([] @ answered api ?E1)"
    unfolding s1_def using named_000 by (rule visionSelected_000_loop)
  moreover have named: "named = filter (\<lambda>m. js_includes m ''vision'') (answered api ?E1)"
    unfolding named_def candidates_split_000 answered_append
    using unnamed_000 by (simp add: named_none_000)
  ultimately have v1: "am_vision s1 = firstBest getModelScore_000 named"
    by (simp add: visionSelected_000_def)
  have none1: "List.find (passesVisionProbe api) ?E1 = None"
    using named_000 [of 0] by (auto simp: find_None_iff passesVisionProbe_def)
  show ?thesis
  proof (cases "named = []")
    case True
    with v1 have "am_vision s1 = None" by simp
    then have "am_vision s = map_option snd (List.find (passesVisionProbe api) ?E2)"
      unfolding s using unnamed_000 by (rule vision_first_probe_000)
    with True none1 show ?thesis
      by (simp add: candidates_split_000 find_append)
  next
    case False
    then obtain v where v: "firstBest getModelScore_000 named = Some v"
      by (cases "firstBest getModelScore_000 named") auto
    then have "v \<in> set named" by (rule firstBest_in_set)
    then have "v \<noteq> []" unfolding named by auto
    with v v1 have "\<not> falsy (am_vision s1)" by simp
    then have "am_vision s = am_vision s1"
      unfolding s using unnamed_000 by (simp add: vision_kept_000)
    with v1 False show ?thesis by simp
  qed
qed

section \<open>When discovery probes its catalog\<close>

lemma stringNames_None: "stringNames ms = None \<longleftrightarrow> None \<in> set ms"
  by (induction ms rule: stringNames.induct) auto

text \<open>
  \<open>part_000\<close> probes when the listing throws, gives no or an empty list, or has
  an entry without a string name; the probing then starts from what the listing
  has left in \<open>allModels\<close>.  \<open>part_001\<close> probes when the listing throws or gives
  no or an empty list.
\<close>

lemma fallback_000:
  assumes "\<forall>names. listModels api = Inr (Some names) \<longrightarrow> names = [] \<or> None \<in> set names"
  shows "discoverAvailableModels_000 api availableModels_init =
    probeCatalog_000 api (availableModels_init\<lparr>am_allModels := listedNames api\<rparr>)"
proof -
  have same: "availableModels_init\<lparr>am_allModels := []\<rparr> = availableModels_init"
    by (simp add: availableModels_init_def)
  have body: "discoverBody_000 api availableModels_init =
    probeCatalog_000 api (availableModels_init\<lparr>am_allModels := listedNames api\<rparr>)"
  proof (cases "listModels api")
    case (Inl e)
    then show ?thesis by (simp add: discoverBody_000_def listedNames_def same)
  next
    case (Inr r)
    show ?thesis
    proof (cases r)
      case None
      with Inr show ?thesis by (simp add: discoverBody_000_def listedNames_def same)
    next
      case (Some names)
      with Inr assms have "names = [] \<or> None \<in> set names" by simp
      then show ?thesis
      proof
        assume "names = []"
        with Inr Some show ?thesis by (simp add: discoverBody_000_def listedNames_def same)
      next
        assume n: "None \<in> set names"
        then have "names \<noteq> []" by auto
        moreover from n have "stringNames names = None" by (simp add: stringNames_None)
        ultimately show ?thesis using Inr Some
          by (simp add: discoverBody_000_def listedNames_def identifyAndCategorizeModels_def)
      qed
    qed
  qed
  show ?thesis
    by (simp add: discoverAvailableModels_000_def body probeCatalog_000_def Let_def)
qed

lemma fallback_001:
  assumes "\<forall>names. listModels api = Inr (Some names) \<longrightarrow> names = []"
  shows "snd (discoverAvailableModels_001 api availableModels_init) =
    probeLoop_001 api (enumerate 0 potentialModels_001) availableModels_init"
  using assms
  by (auto simp: discoverAvailableModels_001_def discoverBody_001_def Let_def
      availableModels_init_def split: sum.splits option.splits)

subsection \<open>Discovery against the example services\<close>

lemma discover_000_probeOnly:
  "discoverAvailableModels_000 probeOnlyApi availableModels_init =
     (Inr True, \<lparr>am_text = Some ''gemini-2.0-pro'', am_vision = Some ''gemini-1.5-flash'',
        am_allModels = [Some ''gemini-1.5-flash'', Some ''gemini-2.0-pro'',
                        Some ''gemini-1.5-flash'']\<rparr>)"
  by (simp add: discover_eval probeOnlyApi_def)

lemma discover_000_legacyVision:
  "discoverAvailableModels_000 legacyVisionApi availableModels_init =
     (Inr True, \<lparr>am_text = Some ''gemini-2.0-flash'', am_vision = Some ''gemini-pro-vision'',
        am_allModels = [Some ''gemini-pro-vision'', Some ''gemini-2.0-flash'',
                        Some ''gemini-1.5-flash'', Some ''gemini-2.0-flash'',
                        Some ''gemini-1.5-flash'']\<rparr>)"
  by (simp add: discover_eval legacyVisionApi_def)

lemma discover_001_legacyVision:
  "discoverAvailableModels_001 legacyVisionApi availableModels_init =
     (Inr True, \<lparr>am_text = Some ''gemini-2.0-flash'', am_vision = Some ''gemini-pro-vision'',
        am_allModels = [Some ''gemini-pro-vision'', Some ''gemini-2.0-flash'',
                        Some ''gemini-1.5-flash'']\<rparr>)"
  by (simp add: discover_eval legacyVisionApi_def)

lemma answered_000_probeOnly:
  "answered probeOnlyApi (enumerate 0 allPotentialModels_000) =
     [''gemini-1.5-flash'', ''gemini-2.0-pro'', ''gemini-1.5-flash'']"
  by (simp add: answered_def probeOnlyApi_def allPotentialModels_000_def visionModels_000_def
      textModels_000_def)

lemma answered_000_legacyVision:
  "answered legacyVisionApi (enumerate 0 allPotentialModels_000) =
     [''gemini-pro-vision'', ''gemini-2.0-flash'', ''gemini-1.5-flash'', ''gemini-2.0-flash'',
      ''gemini-1.5-flash'']"
  by (simp add: answered_def legacyVisionApi_def allPotentialModels_000_def visionModels_000_def
      textModels_000_def)

lemma answered_001_legacyVision:
  "answered legacyVisionApi (enumerate 0 potentialModels_001) =
     [''gemini-pro-vision'', ''gemini-2.0-flash'', ''gemini-1.5-flash'']"
  by (simp add: answered_def legacyVisionApi_def potentialModels_001_def)

lemma firstBest_single [simp]: "firstBest f [x] = Some x"
  by (simp add: firstBest_def)

lemma named_000_legacyVision:
  "filter (\<lambda>m. js_includes m ''vision'')
     (answered legacyVisionApi (enumerate 0 allPotentialModels_000)) = [''gemini-pro-vision'']"
  by (simp add: answered_000_legacyVision js_includes_def sublist_code(3))

lemma named_001_legacyVision:
  "filter (\<lambda>m. js_includes m ''vision'')
     (answered legacyVisionApi (enumerate 0 potentialModels_001)) = [''gemini-pro-vision'']"
  by (simp add: answered_001_legacyVision js_includes_def sublist_code(3))

lemma unnamed_001_legacyVision:
  "filter (\<lambda>m. \<not> js_includes m ''vision'')
     (answered legacyVisionApi (enumerate 0 potentialModels_001))
   = [''gemini-2.0-flash'', ''gemini-1.5-flash'']"
  by (simp add: answered_001_legacyVision js_includes_def sublist_code(3))

lemma named_000_probeOnly:
  "filter (\<lambda>m. js_includes m ''vision'')
     (answered probeOnlyApi (enumerate 0 allPotentialModels_000)) = []"
  by (simp add: answered_000_probeOnly js_includes_def sublist_code(3))

lemma best_000_legacyVision:
  "firstBest getModelScore_000 (answered legacyVisionApi (enumerate 0 allPotentialModels_000))
   = Some ''gemini-2.0-flash''"
  by (simp add: answered_000_legacyVision firstBest_def score_eval)

lemma best_001_legacyVision:
  "firstBest getModelScore_001 [''gemini-2.0-flash'', ''gemini-1.5-flash'']
   = Some ''gemini-2.0-flash''"
  by (simp add: firstBest_def score_eval)

lemma best_000_probeOnly:
  "firstBest getModelScore_000 (answered probeOnlyApi (enumerate 0 allPotentialModels_000))
   = Some ''gemini-2.0-pro''"
  by (simp add: answered_000_probeOnly firstBest_def score_eval)

lemma first_probe_probeOnly:
  "map_option snd
     (List.find (passesVisionProbe probeOnlyApi) (enumerate 0 allPotentialModels_000))
   = Some ''gemini-1.5-flash''"
  by (simp add: passesVisionProbe_def probeOnlyApi_def allPotentialModels_000_def
      visionModels_000_def textModels_000_def js_includes_def sublist_code(3))

section \<open>Analytics: the response-time sample\<close>

lemma recordResponseTime_fields [simp]:
  "totalMessages (recordResponseTime c s) = totalMessages s"
  "userMessages (recordResponseTime c s) = userMessages s"
  "aiMessages (recordResponseTime c s) = aiMessages s"
  "tokenUsage_input (recordResponseTime c s) = tokenUsage_input s"
  "tokenUsage_output (recordResponseTime c s) = tokenUsage_output s"
  "tokenUsage_total (recordResponseTime c s) = tokenUsage_total s"
  by (simp_all add: recordResponseTime_def Let_def split: option.splits)

lemma recordResponseTime_avg:
  "responseTimeHistory s \<noteq> [] \<longrightarrow>
     avgResponseTime s = totalResponseTime s / real (length (responseTimeHistory s)) \<Longrightarrow>
   responseTimeHistory (recordResponseTime c s) \<noteq> [] \<longrightarrow>
     avgResponseTime (recordResponseTime c s) =
       totalResponseTime (recordResponseTime c s) /
         real (length (responseTimeHistory (recordResponseTime c s)))"
  by (simp add: recordResponseTime_def Let_def split: option.splits)

section \<open>The claims\<close>

subsection \<open>C1: a chat request with an empty messages array\<close>

text \<open>
  C1, as amended.  The handler validates only that \<open>messages\<close> is present and is an
  array.  A request whose \<open>messages\<close> is the empty array is rejected before any
  upstream call exactly when no text model has been selected (status 503);
  with a text model selected it makes one upstream call, \<open>sendMessage\<close> with the
  empty prompt and no history.  A request whose \<open>messages\<close> is missing or not an
  array is rejected with status 400 before any upstream call.
\<close>

theorem chatHandler_empty_messages:
  "(falsy (am_text am) \<longrightarrow>
      chatHandler up am \<lparr>requestedModel = rm, messages = MessagesArray []\<rparr> =
        (\<lparr>status = 503,
          body = ErrorBody ''No working text model available''
            (Some ''The server could not find any working Gemini text models'')\<rparr>, [])) \<and>
   (\<not> falsy (am_text am) \<longrightarrow>
      (\<exists>m. snd (chatHandler up am \<lparr>requestedModel = rm, messages = MessagesArray []\<rparr>) =
        [SendMessage m [] []])) \<and>
   chatHandler up am \<lparr>requestedModel = rm, messages = NoMessages\<rparr> =
     (\<lparr>status = 400, body = ErrorBody ''Invalid messages format'' None\<rparr>, []) \<and>
   chatHandler up am \<lparr>requestedModel = rm, messages = NotAnArray\<rparr> =
     (\<lparr>status = 400, body = ErrorBody ''Invalid messages format'' None\<rparr>, [])"
  by (auto simp: chatHandler_def Let_def split: sum.splits option.splits)

text \<open>
  The amended claim at work: before discovery has selected a text model the empty
  request is turned away without a call; once \<open>gemini-2.0-flash\<close> is selected, it
  reaches the service.
\<close>

theorem chatHandler_empty_messages_witness:
  "falsy (am_text availableModels_init) \<and>
   snd (chatHandler helloUpstream availableModels_init
     \<lparr>requestedModel = None, messages = MessagesArray []\<rparr>) = [] \<and>
   \<not> falsy (am_text flashOnly) \<and>
   (\<exists>m. snd (chatHandler helloUpstream flashOnly
     \<lparr>requestedModel = None, messages = MessagesArray []\<rparr>) = [SendMessage m [] []])"
  using chatHandler_empty_messages [of availableModels_init helloUpstream None]
    chatHandler_empty_messages [of flashOnly helloUpstream None]
  by (simp add: availableModels_init_def flashOnly_def)

text \<open>
  C1 as stated fails: with \<open>gemini-2.0-flash\<close> selected and a service that answers,
  the request with the empty array is answered with status 200, after one
  upstream call.
\<close>

theorem chatHandler_empty_messages_forwarded:
  "chatHandler helloUpstream flashOnly \<lparr>requestedModel = None, messages = MessagesArray []\<rparr>
   = (\<lparr>status = 200, body = ContentBody ''Hello'' ''gemini-2.0-flash''\<rparr>,
      [SendMessage ''gemini-2.0-flash'' [] []])"
  by (simp add: chatHandler_def helloUpstream_def flashOnly_def Let_def)

subsection \<open>C2: a vision marker against the capability tiers\<close>

text \<open>
  C2, as amended.  Two identifiers are of the same generation when the scorer's
  generation test (the first of \<open>2.0\<close>, \<open>1.5\<close>, \<open>1.0\<close> found in the identifier, or
  none) gives the same result for both.  For identifiers \<open>a\<close> and \<open>b\<close> of the same
  generation, \<open>a\<close> containing \<open>vision\<close> and \<open>b\<close> not:
  \<^item> the scorer of \<open>part_000\<close> (vision bonus 100, tiers at most 30) scores \<open>a\<close>
    strictly higher;
  \<^item> the scorer of \<open>part_001\<close> (vision bonus 25, tiers \<open>ultra\<close> 30, \<open>pro\<close> 20,
    \<open>flash\<close> 15) scores \<open>a\<close> strictly higher except in one case, and only then
    not: \<open>b\<close> contains \<open>ultra\<close> and \<open>a\<close> contains none of \<open>ultra\<close>, \<open>pro\<close>, \<open>flash\<close>.
\<close>

theorem vision_outscores_same_generation:
  assumes "generationMarker a = generationMarker b"
    and "js_includes a ''vision''" and "\<not> js_includes b ''vision''"
  shows "getModelScore_000 b < getModelScore_000 a \<and>
    (getModelScore_001 b < getModelScore_001 a \<longleftrightarrow>
       \<not> (js_includes b ''ultra'' \<and> \<not> js_includes a ''ultra'' \<and>
          \<not> js_includes a ''pro'' \<and> \<not> js_includes a ''flash''))"
proof -
  from assms(1) have gen:
    "js_includes a ''2.0'' = js_includes b ''2.0''"
    "\<not> js_includes b ''2.0'' \<Longrightarrow> js_includes a ''1.5'' = js_includes b ''1.5''"
    "\<not> js_includes b ''2.0'' \<Longrightarrow> \<not> js_includes b ''1.5'' \<Longrightarrow>
       js_includes a ''1.0'' = js_includes b ''1.0''"
    by (auto simp: generationMarker_def split: if_splits)
  have "getModelScore_000 b < getModelScore_000 a"
    using gen assms(2,3) by (simp add: getModelScore_000_def Let_def)
  moreover have "getModelScore_001 b < getModelScore_001 a \<longleftrightarrow>
       \<not> (js_includes b ''ultra'' \<and> \<not> js_includes a ''ultra'' \<and>
          \<not> js_includes a ''pro'' \<and> \<not> js_includes a ''flash'')"
    using gen assms(2,3) by (simp add: getModelScore_001_def Let_def)
  ultimately show ?thesis by simp
qed

text \<open>
  The amended claim on \<open>gemini-1.5-pro-vision\<close> against \<open>gemini-1.5-ultra\<close>, both of
  generation 1.5: \<open>b\<close> contains \<open>ultra\<close>, but \<open>a\<close> contains \<open>pro\<close>, and \<open>a\<close> wins under
  both scorers (230 to 100, and 95 to 80).
\<close>

theorem vision_outscores_same_generation_witness:
  "generationMarker ''gemini-1.5-pro-vision'' = generationMarker ''gemini-1.5-ultra'' \<and>
   js_includes ''gemini-1.5-ultra'' ''ultra'' \<and>
   js_includes ''gemini-1.5-pro-vision'' ''pro'' \<and>
   getModelScore_000 ''gemini-1.5-ultra'' < getModelScore_000 ''gemini-1.5-pro-vision'' \<and>
   getModelScore_001 ''gemini-1.5-ultra'' < getModelScore_001 ''gemini-1.5-pro-vision''"
proof -
  have g: "generationMarker ''gemini-1.5-pro-vision'' = generationMarker ''gemini-1.5-ultra''"
    and v: "js_includes ''gemini-1.5-pro-vision'' ''vision''"
    and n: "\<not> js_includes ''gemini-1.5-ultra'' ''vision''"
    and u: "js_includes ''gemini-1.5-ultra'' ''ultra''"
    and p: "js_includes ''gemini-1.5-pro-vision'' ''pro''"
    by (simp_all add: generationMarker_def js_includes_def sublist_code(3))
  from vision_outscores_same_generation [OF g v n] g u p show ?thesis by simp
qed

text \<open>
  C2 as stated fails twice.  On the scorer of \<open>part_001\<close>: \<open>gemini-1.5-vision\<close> and
  \<open>gemini-1.5-ultra\<close> are of generation 1.5, only the first contains \<open>vision\<close>, and
  it scores 75 against 80.  And when ``the same generation marker substring'' is
  read as any marker the two have in common, also on the scorer of \<open>part_000\<close>:
  \<open>gemini-1.5-vision\<close> and \<open>gemini-2.0-1.5-pro\<close> both contain \<open>1.5\<close>, and the first
  scores 200 against 230, the second being scored as generation 2.0.
\<close>

theorem vision_below_ultra_001:
  "generationMarker ''gemini-1.5-vision'' = generationMarker ''gemini-1.5-ultra'' \<and>
   js_includes ''gemini-1.5-vision'' ''vision'' \<and>
   \<not> js_includes ''gemini-1.5-ultra'' ''vision'' \<and>
   getModelScore_001 ''gemini-1.5-vision'' = 75 \<and>
   getModelScore_001 ''gemini-1.5-ultra'' = 80 \<and>
   \<not> getModelScore_001 ''gemini-1.5-vision'' > getModelScore_001 ''gemini-1.5-ultra'' \<and>
   js_includes ''gemini-1.5-vision'' ''1.5'' \<and>
   js_includes ''gemini-2.0-1.5-pro'' ''1.5'' \<and>
   \<not> js_includes ''gemini-2.0-1.5-pro'' ''vision'' \<and>
   getModelScore_000 ''gemini-1.5-vision'' = 200 \<and>
   getModelScore_000 ''gemini-2.0-1.5-pro'' = 230"
  by (simp add: score_eval)

subsection \<open>C3: incremental selection against whole-set scoring\<close>

text \<open>
  C3, as amended.  Let \<open>found\<close> be the candidates of the catalog whose liveness
  request succeeded, in catalog order, and let discovery start from the initial
  state.
  \<^item> In \<open>part_000\<close>, whenever discovery probes its catalog (the listing throws,
    gives no or an empty list, or has an entry without a string name),
    \<open>allModels\<close> ends as what the listing left there followed by \<open>found\<close>; the final
    text model is the first best (maximal score, first discovered among equals)
    of \<open>found\<close>; the final vision model is the first best of the models of \<open>found\<close>
    named \<open>vision\<close> when there is one, and otherwise the first candidate that
    passed the image probe, taken without any comparison of scores.
  \<^item> In \<open>part_001\<close>, whenever discovery probes its catalog (the listing throws or
    gives no or an empty list), \<open>allModels\<close> ends as \<open>found\<close>; the final vision
    model is the first best of the models of \<open>found\<close> named \<open>vision\<close>, and the final
    text model the first best of the models of \<open>found\<close> not so named.
\<close>

theorem fallback_selection:
  "((\<forall>names. listModels api = Inr (Some names) \<longrightarrow> names = [] \<or> None \<in> set names) \<longrightarrow>
      (let s = snd (discoverAvailableModels_000 api availableModels_init);
           found = answered api (enumerate 0 allPotentialModels_000);
           named = filter (\<lambda>m. js_includes m ''vision'') found
       in am_allModels s = listedNames api @ map Some found \<and>
          am_text s = firstBest getModelScore_000 found \<and>
          (named \<noteq> [] \<longrightarrow> am_vision s = firstBest getModelScore_000 named) \<and>
          (named = [] \<longrightarrow> am_vision s =
             map_option snd
               (List.find (passesVisionProbe api) (enumerate 0 allPotentialModels_000))))) \<and>
   ((\<forall>names. listModels api = Inr (Some names) \<longrightarrow> names = []) \<longrightarrow>
      (let s = snd (discoverAvailableModels_001 api availableModels_init);
           found = answered api (enumerate 0 potentialModels_001)
       in am_allModels s = map Some found \<and>
          am_vision s = firstBest getModelScore_001
            (filter (\<lambda>m. js_includes m ''vision'') found) \<and>
          am_text s = firstBest getModelScore_001
            (filter (\<lambda>m. \<not> js_includes m ''vision'') found)))"
proof (intro conjI impI)
  assume h: "\<forall>names. listModels api = Inr (Some names) \<longrightarrow> names = [] \<or> None \<in> set names"
  let ?am = "availableModels_init\<lparr>am_allModels := listedNames api\<rparr>"
  let ?E = "enumerate 0 allPotentialModels_000"
  have s: "snd (discoverAvailableModels_000 api availableModels_init) = probeLoop_000 api ?E ?am"
    by (simp add: fallback_000 [OF h] probeCatalog_000_def Let_def)
  have "textSelected_000 ?am []"
    by (simp add: textSelected_000_def availableModels_init_def firstBest_def)
  then have "textSelected_000 (probeLoop_000 api ?E ?am) ([] @ answered api ?E)"
    using names_nonempty_000 by (rule textSelected_000_loop)
  then have t: "am_text (probeLoop_000 api ?E ?am) = firstBest getModelScore_000 (answered api ?E)"
    by (simp add: textSelected_000_def)
  have a: "am_allModels (probeLoop_000 api ?E ?am) = listedNames api @ map Some (answered api ?E)"
    by (simp add: allModels_probeLoop_000)
  have "am_vision ?am = None" by (simp add: availableModels_init_def)
  from vision_000 [OF this, of api] t a
  show "let s = snd (discoverAvailableModels_000 api availableModels_init);
           found = answered api (enumerate 0 allPotentialModels_000);
           named = filter (\<lambda>m. js_includes m ''vision'') found
       in am_allModels s = listedNames api @ map Some found \<and>
          am_text s = firstBest getModelScore_000 found \<and>
          (named \<noteq> [] \<longrightarrow> am_vision s = firstBest getModelScore_000 named) \<and>
          (named = [] \<longrightarrow> am_vision s =
             map_option snd
               (List.find (passesVisionProbe api) (enumerate 0 allPotentialModels_000)))"
    unfolding s Let_def by simp
next
  assume h: "\<forall>names. listModels api = Inr (Some names) \<longrightarrow> names = []"
  let ?E = "enumerate 0 potentialModels_001"
  have "selected_001 availableModels_init []"
    by (simp add: selected_001_def availableModels_init_def firstBest_def)
  then have "selected_001 (probeLoop_001 api ?E availableModels_init) ([] @ answered api ?E)"
    using names_nonempty_001 by (rule selected_001_loop)
  moreover have "am_allModels (probeLoop_001 api ?E availableModels_init) =
      map Some (answered api ?E)"
    by (simp add: allModels_probeLoop_001 availableModels_init_def)
  ultimately
  show "let s = snd (discoverAvailableModels_001 api availableModels_init);
           found = answered api (enumerate 0 potentialModels_001)
       in am_allModels s = map Some found \<and>
          am_vision s = firstBest getModelScore_001
            (filter (\<lambda>m. js_includes m ''vision'') found) \<and>
          am_text s = firstBest getModelScore_001
            (filter (\<lambda>m. \<not> js_includes m ''vision'') found)"
    unfolding fallback_001 [OF h] Let_def by (simp add: selected_001_def)
qed

text \<open>
  The amended claim on three services.  Against \<open>legacyVisionApi\<close> both versions
  find \<open>gemini-pro-vision\<close> and select it as the first best of the named models,
  with \<open>gemini-2.0-flash\<close> as the text model.  Against \<open>probeOnlyApi\<close> no named
  model answers \<open>part_000\<close>, and its vision slot holds the first candidate that
  passed the image probe.  Against \<open>namelessListingApi\<close> the probing of \<open>part_000\<close>
  starts from the nameless entry the listing has left and adds nothing.
\<close>

theorem fallback_selection_witness:
  "am_allModels (snd (discoverAvailableModels_000 legacyVisionApi availableModels_init)) =
     map Some (answered legacyVisionApi (enumerate 0 allPotentialModels_000)) \<and>
   am_text (snd (discoverAvailableModels_000 legacyVisionApi availableModels_init))
     = Some ''gemini-2.0-flash'' \<and>
   firstBest getModelScore_000 (answered legacyVisionApi (enumerate 0 allPotentialModels_000))
     = Some ''gemini-2.0-flash'' \<and>
   filter (\<lambda>m. js_includes m ''vision'')
     (answered legacyVisionApi (enumerate 0 allPotentialModels_000)) = [''gemini-pro-vision''] \<and>
   am_vision (snd (discoverAvailableModels_000 legacyVisionApi availableModels_init))
     = Some ''gemini-pro-vision'' \<and>
   am_allModels (snd (discoverAvailableModels_001 legacyVisionApi availableModels_init)) =
     map Some (answered legacyVisionApi (enumerate 0 potentialModels_001)) \<and>
   filter (\<lambda>m. js_includes m ''vision'')
     (answered legacyVisionApi (enumerate 0 potentialModels_001)) = [''gemini-pro-vision''] \<and>
   am_vision (snd (discoverAvailableModels_001 legacyVisionApi availableModels_init))
     = Some ''gemini-pro-vision'' \<and>
   filter (\<lambda>m. \<not> js_includes m ''vision'')
     (answered legacyVisionApi (enumerate 0 potentialModels_001))
     = [''gemini-2.0-flash'', ''gemini-1.5-flash''] \<and>
   am_text (snd (discoverAvailableModels_001 legacyVisionApi availableModels_init))
     = Some ''gemini-2.0-flash'' \<and>
   filter (\<lambda>m. js_includes m ''vision'')
     (answered probeOnlyApi (enumerate 0 allPotentialModels_000)) = [] \<and>
   map_option snd (List.find (passesVisionProbe probeOnlyApi) (enumerate 0 allPotentialModels_000))
     = Some ''gemini-1.5-flash'' \<and>
   am_vision (snd (discoverAvailableModels_000 probeOnlyApi availableModels_init))
     = Some ''gemini-1.5-flash'' \<and>
   listedNames namelessListingApi = [None] \<and>
   answered namelessListingApi (enumerate 0 allPotentialModels_000) = [] \<and>
   am_allModels (snd (discoverAvailableModels_000 namelessListingApi availableModels_init))
     = [None]"
proof -
  have a0: "\<forall>names. listModels legacyVisionApi = Inr (Some names) \<longrightarrow>
      names = [] \<or> None \<in> set names"
    and a1: "\<forall>names. listModels legacyVisionApi = Inr (Some names) \<longrightarrow> names = []"
    by (simp_all add: legacyVisionApi_def)
  have b0: "\<forall>names. listModels probeOnlyApi = Inr (Some names) \<longrightarrow>
      names = [] \<or> None \<in> set names"
    by (simp add: probeOnlyApi_def)
  have c0: "\<forall>names. listModels namelessListingApi = Inr (Some names) \<longrightarrow>
      names = [] \<or> None \<in> set names"
    by (simp add: namelessListingApi_def)
  have l: "listedNames legacyVisionApi = []" "listedNames probeOnlyApi = []"
    "listedNames namelessListingApi = [None]"
    by (simp_all add: listedNames_def legacyVisionApi_def probeOnlyApi_def
        namelessListingApi_def)
  have n: "answered namelessListingApi (enumerate 0 allPotentialModels_000) = []"
    by (rule answered_none) (simp add: namelessListingApi_def)
  note legacy_000 = fallback_selection [of legacyVisionApi, THEN conjunct1, THEN mp, OF a0]
  note legacy_001 = fallback_selection [of legacyVisionApi, THEN conjunct2, THEN mp, OF a1]
  note probeOnly_000 = fallback_selection [of probeOnlyApi, THEN conjunct1, THEN mp, OF b0]
  note nameless_000 = fallback_selection [of namelessListingApi, THEN conjunct1, THEN mp, OF c0]
  from legacy_000 legacy_001 probeOnly_000 nameless_000 show ?thesis
    by (simp add: Let_def l n named_000_legacyVision named_001_legacyVision
        unnamed_001_legacyVision named_000_probeOnly best_000_legacyVision
        best_001_legacyVision best_000_probeOnly first_probe_probeOnly)
qed

text \<open>
  C3 as stated fails on \<open>part_000\<close>.  Against \<open>probeOnlyApi\<close> the loop discovers
  \<open>gemini-1.5-flash\<close>, \<open>gemini-2.0-pro\<close> and \<open>gemini-1.5-flash\<close> again, each passing
  the image probe.  The vision slot ends as \<open>gemini-1.5-flash\<close> (score 120), while
  scoring the discovered set at once gives \<open>gemini-2.0-pro\<close> (score 230), and
  scoring its models named \<open>vision\<close> gives none.
\<close>

theorem fallback_vision_not_best:
  "am_vision (snd (discoverAvailableModels_000 probeOnlyApi availableModels_init))
     = Some ''gemini-1.5-flash'' \<and>
   am_allModels (snd (discoverAvailableModels_000 probeOnlyApi availableModels_init))
     = [Some ''gemini-1.5-flash'', Some ''gemini-2.0-pro'', Some ''gemini-1.5-flash''] \<and>
   answered probeOnlyApi (enumerate 0 allPotentialModels_000)
     = [''gemini-1.5-flash'', ''gemini-2.0-pro'', ''gemini-1.5-flash''] \<and>
   firstBest getModelScore_000 (answered probeOnlyApi (enumerate 0 allPotentialModels_000))
     = Some ''gemini-2.0-pro'' \<and>
   firstBest getModelScore_000 (filter (\<lambda>m. js_includes m ''vision'')
     (answered probeOnlyApi (enumerate 0 allPotentialModels_000)))
     = None"
  using discover_000_probeOnly answered_000_probeOnly best_000_probeOnly named_000_probeOnly
  by simp

subsection \<open>C4: discovery that finds nothing\<close>

text \<open>
  C4 fails on \<open>part_000\<close>.  The listing answers with one entry that has no name,
  and every liveness request is rejected.  \<open>part_000\<close> assigns the listing to
  \<open>allModels\<close>, its classification throws, the \<open>catch\<close> of the listing falls
  through to the probing, nothing answers, and
  \<open>return availableModels.allModels.length > 0\<close> gives \<open>true\<close> although neither
  a text nor a vision model is selected.  \<open>part_001\<close> returns \<open>false\<close> on the same
  service.
\<close>

theorem discover_nameless_listing:
  "discoverAvailableModels_000 namelessListingApi availableModels_init =
     (Inr True, \<lparr>am_text = None, am_vision = None, am_allModels = [None]\<rparr>) \<and>
   discoverAvailableModels_001 namelessListingApi availableModels_init =
     (Inr False, \<lparr>am_text = None, am_vision = None, am_allModels = [None]\<rparr>)"
proof -
  have h: "\<forall>names. listModels namelessListingApi = Inr (Some names) \<longrightarrow>
      names = [] \<or> None \<in> set names"
    by (simp add: namelessListingApi_def)
  have loop: "probeLoop_000 namelessListingApi cs am = am" for cs am
    by (rule probeLoop_000_none) (simp add: namelessListingApi_def)
  have listed: "listedNames namelessListingApi = [None]"
    by (simp add: listedNames_def namelessListingApi_def)
  have "discoverAvailableModels_000 namelessListingApi availableModels_init =
     probeCatalog_000 namelessListingApi
       (availableModels_init\<lparr>am_allModels := listedNames namelessListingApi\<rparr>)"
    using h by (rule fallback_000)
  also have "\<dots> = (Inr True, \<lparr>am_text = None, am_vision = None, am_allModels = [None]\<rparr>)"
    by (simp add: probeCatalog_000_def loop listed availableModels_init_def)
  finally have "discoverAvailableModels_000 namelessListingApi availableModels_init =
     (Inr True, \<lparr>am_text = None, am_vision = None, am_allModels = [None]\<rparr>)" .
  moreover have "discoverAvailableModels_001 namelessListingApi availableModels_init =
     (Inr False, \<lparr>am_text = None, am_vision = None, am_allModels = [None]\<rparr>)"
    by (simp add: discoverAvailableModels_001_def discoverBody_001_def processListed_001_def
        namelessListingApi_def availableModels_init_def)
  ultimately show ?thesis by simp
qed

text \<open>
  Everywhere else the claim holds.  With every liveness request failing,
  \<open>part_000\<close> returns whether the listing has left anything in \<open>allModels\<close>:
  \<open>false\<close> when the listing throws or gives no or an empty list.  \<open>part_001\<close>
  returns \<open>false\<close> whenever it selects no model, also through its outer \<open>catch\<close>.
  Neither raises.
\<close>

lemma discover_nothing_found_000:
  assumes listing: "\<forall>names. listModels api = Inr (Some names) \<longrightarrow>
      names = [] \<or> None \<in> set names"
    and probes: "\<forall>i m. isl (generateTest api i m)"
  shows "discoverAvailableModels_000 api availableModels_init =
    (Inr (listedNames api \<noteq> []), availableModels_init\<lparr>am_allModels := listedNames api\<rparr>)"
proof -
  have "probeLoop_000 api cs am = am" for cs am
    using probes by (simp add: probeLoop_000_none)
  then show ?thesis
    by (simp add: fallback_000 [OF listing] probeCatalog_000_def)
qed

lemma discover_nothing_found_001:
  assumes listing: "\<forall>names. listModels api = Inr (Some names) \<longrightarrow>
      names = [] \<or> None \<in> set names"
    and probes: "\<forall>i m. isl (generateTest api i m)"
  shows "discoverAvailableModels_001 api availableModels_init =
    (Inr False, availableModels_init\<lparr>am_allModels := listedNames api\<rparr>)"
proof -
  have loop: "probeLoop_001 api cs am = am" for cs am
    using probes by (simp add: probeLoop_001_none)
  have same: "availableModels_init\<lparr>am_allModels := []\<rparr> = availableModels_init"
    by (simp add: availableModels_init_def)
  show ?thesis
  proof (cases "listModels api")
    case (Inl e)
    then show ?thesis
      by (simp add: discoverAvailableModels_001_def discoverBody_001_def listedNames_def
          loop same) (simp add: availableModels_init_def)
  next
    case (Inr r)
    show ?thesis
    proof (cases r)
      case None
      with Inr show ?thesis
        by (simp add: discoverAvailableModels_001_def discoverBody_001_def listedNames_def
            loop same) (simp add: availableModels_init_def)
    next
      case (Some names)
      with Inr listing have "names = [] \<or> None \<in> set names" by simp
      then show ?thesis
      proof
        assume "names = []"
        with Inr Some show ?thesis
          by (simp add: discoverAvailableModels_001_def discoverBody_001_def listedNames_def
              loop same) (simp add: availableModels_init_def)
      next
        assume n: "None \<in> set names"
        then have "names \<noteq> []" by auto
        moreover from n have "stringNames names = None" by (simp add: stringNames_None)
        ultimately show ?thesis using Inr Some
          by (simp add: discoverAvailableModels_001_def discoverBody_001_def listedNames_def
              processListed_001_def)
      qed
    qed
  qed
qed

lemma discover_dead_service:
  "discoverAvailableModels_000 deadApi availableModels_init = (Inr False, availableModels_init) \<and>
   discoverAvailableModels_001 deadApi availableModels_init = (Inr False, availableModels_init)"
proof -
  have l: "\<forall>names. listModels deadApi = Inr (Some names) \<longrightarrow> names = [] \<or> None \<in> set names"
    by (simp add: deadApi_def)
  have p: "\<forall>i m. isl (generateTest deadApi i m)"
    by (simp add: deadApi_def)
  have "listedNames deadApi = []" by (simp add: listedNames_def deadApi_def)
  with discover_nothing_found_000 [OF l p] discover_nothing_found_001 [OF l p]
  show ?thesis by (simp add: availableModels_init_def)
qed

subsection \<open>C5: classification of a listed pair\<close>

text \<open>
  C5.  When the API lists \<open>gemini-pro-vision\<close> and \<open>gemini-2.0-flash\<close>, discovery
  selects \<open>gemini-pro-vision\<close> as the vision model and \<open>gemini-2.0-flash\<close> as the
  text model, in both versions, whatever the rest of the service does.
\<close>

theorem discover_listed_pair:
  "discoverAvailableModels_000
     (api\<lparr>listModels := Inr (Some [Some ''gemini-pro-vision'', Some ''gemini-2.0-flash''])\<rparr>)
     availableModels_init
   = (Inr True,
      \<lparr>am_text = Some ''gemini-2.0-flash'', am_vision = Some ''gemini-pro-vision'',
       am_allModels = [Some ''gemini-pro-vision'', Some ''gemini-2.0-flash'']\<rparr>) \<and>
   discoverAvailableModels_001
     (api\<lparr>listModels := Inr (Some [Some ''gemini-pro-vision'', Some ''gemini-2.0-flash''])\<rparr>)
     availableModels_init
   = (Inr True,
      \<lparr>am_text = Some ''gemini-2.0-flash'', am_vision = Some ''gemini-pro-vision'',
       am_allModels = [Some ''gemini-pro-vision'', Some ''gemini-2.0-flash'']\<rparr>)"
  by (simp add: discoverAvailableModels_000_def discoverBody_000_def
      identifyAndCategorizeModels_def sortByScore_000_def
      discoverAvailableModels_001_def discoverBody_001_def processListed_001_def
      sortByScore_001_def availableModels_init_def score_eval)

subsection \<open>C6: appending a vision marker\<close>

text \<open>
  C6.  For every identifier \<open>x\<close>, the score of \<open>x + "-vision"\<close> is at least the
  score of \<open>x\<close>, under both scorers: the suffix adds no generation or tier marker
  and makes the vision test succeed.
\<close>

theorem vision_suffix_monotone:
  "getModelScore_000 x \<le> getModelScore_000 (x @ ''-vision'') \<and>
   getModelScore_001 x \<le> getModelScore_001 (x @ ''-vision'')"
  by (simp add: getModelScore_000_def getModelScore_001_def includes_vision_suffix
      includes_marker_suffix Let_def)

subsection \<open>C7: the comparison is strict\<close>

text \<open>
  C7.  \<open>isBetterModel(a, a)\<close> is false for every identifier, and
  \<open>isBetterModel(a, b)\<close> is false whenever \<open>a\<close> and \<open>b\<close> have the same score, in
  both versions: on a tie the incumbent stays.
\<close>

theorem isBetterModel_strict:
  "\<not> isBetterModel_000 a a \<and> \<not> isBetterModel_001 a a \<and>
   (getModelScore_000 a = getModelScore_000 b \<longrightarrow> \<not> isBetterModel_000 a b) \<and>
   (getModelScore_001 a = getModelScore_001 b \<longrightarrow> \<not> isBetterModel_001 a b)"
  by (simp add: isBetterModel_000_def isBetterModel_001_def)

theorem isBetterModel_strict_witness:
  "getModelScore_000 ''gemini-2.0-flash-lite'' = getModelScore_000 ''gemini-2.0-flash'' \<and>
   getModelScore_001 ''gemini-2.0-flash-lite'' = getModelScore_001 ''gemini-2.0-flash'' \<and>
   \<not> isBetterModel_000 ''gemini-2.0-flash-lite'' ''gemini-2.0-flash'' \<and>
   \<not> isBetterModel_001 ''gemini-2.0-flash-lite'' ''gemini-2.0-flash''"
proof -
  have e: "getModelScore_000 ''gemini-2.0-flash-lite'' = getModelScore_000 ''gemini-2.0-flash''"
    "getModelScore_001 ''gemini-2.0-flash-lite'' = getModelScore_001 ''gemini-2.0-flash''"
    by (simp_all add: getModelScore_000_def getModelScore_001_def js_includes_def sublist_code(3))
  from isBetterModel_strict [of "''gemini-2.0-flash-lite''" "''gemini-2.0-flash''"] e
  show ?thesis by simp
qed

subsection \<open>C8: the invariant of the conversation statistics\<close>

text \<open>
  C8.  The invariant of \<open>conversationStats\<close> (the total count is the sum of the
  user and AI counts; the average response time is the total response time
  divided by the number of samples whenever there is a sample) holds in the
  zeroed state, after \<open>resetStats\<close>, and is preserved by \<open>trackUserMessage\<close>,
  \<open>trackAIResponse\<close> and \<open>trackImageUpload\<close>.  The average is only ever assigned
  the quotient itself, right after a sample is appended, so the argument does not
  depend on how the division rounds.
\<close>

theorem statsInvariant_preserved:
  "statsInvariant zeroStats \<and> statsInvariant (resetStats s) \<and>
   (statsInvariant s \<longrightarrow>
      statsInvariant (trackUserMessage c message s) \<and>
      statsInvariant (trackAIResponse c response s) \<and>
      statsInvariant (trackImageUpload s))"
proof -
  have z: "statsInvariant zeroStats" by (simp add: statsInvariant_def zeroStats_def)
  have u: "statsInvariant (trackUserMessage c message s)" if "statsInvariant s"
    using that by (simp add: statsInvariant_def trackUserMessage_def Let_def)
  have i: "statsInvariant (trackImageUpload s)" if "statsInvariant s"
    using that by (simp add: statsInvariant_def trackImageUpload_def)
  have a: "statsInvariant (trackAIResponse c response s)" if "statsInvariant s"
  proof -
    let ?s = "s\<lparr>aiMessages := aiMessages s + 1, totalMessages := totalMessages s + 1,
      characterCounts_ai := characterCounts_ai s + int (length response)\<rparr>"
    have "responseTimeHistory ?s \<noteq> [] \<longrightarrow>
      avgResponseTime ?s = totalResponseTime ?s / real (length (responseTimeHistory ?s))"
      using that by (simp add: statsInvariant_def)
    from recordResponseTime_avg [OF this, of c] that show ?thesis
      by (simp add: statsInvariant_def trackAIResponse_def Let_def)
  qed
  from z u i a show ?thesis by (simp add: resetStats_def)
qed

text \<open>
  One round trip from the zeroed state: a question, then the answer 1.5 seconds
  later.  The state after the question satisfies the invariant, the state after
  the answer satisfies it with one sample, two messages and an average of 1.5.
\<close>

theorem statsInvariant_preserved_witness:
  "statsInvariant (trackUserMessage clockAsk ''hello'' zeroStats) \<and>
   statsInvariant (trackAIResponse clockAnswer ''hi there''
     (trackUserMessage clockAsk ''hello'' zeroStats)) \<and>
   length (responseTimeHistory (trackAIResponse clockAnswer ''hi there''
     (trackUserMessage clockAsk ''hello'' zeroStats))) = 1 \<and>
   totalMessages (trackAIResponse clockAnswer ''hi there''
     (trackUserMessage clockAsk ''hello'' zeroStats)) = 2 \<and>
   avgResponseTime (trackAIResponse clockAnswer ''hi there''
     (trackUserMessage clockAsk ''hello'' zeroStats)) = 3 / 2"
proof -
  have h: "statsInvariant (trackUserMessage clockAsk ''hello'' zeroStats)"
    using statsInvariant_preserved [of zeroStats clockAsk "''hello''"] by simp
  from statsInvariant_preserved
    [of "trackUserMessage clockAsk ''hello'' zeroStats" clockAnswer _ "''hi there''"] h
  show ?thesis
    by (simp add: trackAIResponse_def trackUserMessage_def recordResponseTime_def zeroStats_def
        clockAsk_def clockAnswer_def Let_def)
qed

subsection \<open>C9: two responses in a row\<close>

text \<open>
  C9.  From every state, two calls of \<open>trackAIResponse\<close> in a row append at most
  one response-time sample: the first call clears \<open>lastQuery\<close>, and the second
  leaves the history as the first left it.
\<close>

theorem trackAIResponse_twice:
  "length (responseTimeHistory (trackAIResponse c2 r2 (trackAIResponse c1 r1 s)))
     \<le> length (responseTimeHistory s) + 1 \<and>
   lastQuery (trackAIResponse c1 r1 s) = None \<and>
   responseTimeHistory (trackAIResponse c2 r2 (trackAIResponse c1 r1 s)) =
     responseTimeHistory (trackAIResponse c1 r1 s)"
  by (simp add: trackAIResponse_def recordResponseTime_def Let_def split: option.splits)

subsection \<open>C10: the token-usage invariant\<close>

text \<open>
  C10.  \<open>tokenUsage.total = tokenUsage.input + tokenUsage.output\<close> holds in the
  zeroed state, after \<open>resetStats\<close>, and is preserved by \<open>trackUserMessage\<close>,
  \<open>trackAIResponse\<close> and \<open>trackImageUpload\<close>.
\<close>

theorem tokenInvariant_preserved:
  "tokenInvariant zeroStats \<and> tokenInvariant (resetStats s) \<and>
   (tokenInvariant s \<longrightarrow>
      tokenInvariant (trackUserMessage c message s) \<and>
      tokenInvariant (trackAIResponse c response s) \<and>
      tokenInvariant (trackImageUpload s))"
  by (simp add: tokenInvariant_def zeroStats_def resetStats_def trackUserMessage_def
      trackAIResponse_def trackImageUpload_def Let_def)

theorem tokenInvariant_preserved_witness:
  "tokenInvariant (trackUserMessage clockAsk ''hello'' zeroStats) \<and>
   tokenInvariant (trackAIResponse clockAnswer ''hi there''
     (trackUserMessage clockAsk ''hello'' zeroStats)) \<and>
   tokenUsage_input (trackAIResponse clockAnswer ''hi there''
     (trackUserMessage clockAsk ''hello'' zeroStats)) = 2 \<and>
   tokenUsage_output (trackAIResponse clockAnswer ''hi there''
     (trackUserMessage clockAsk ''hello'' zeroStats)) = 2 \<and>
   tokenUsage_total (trackAIResponse clockAnswer ''hi there''
     (trackUserMessage clockAsk ''hello'' zeroStats)) = 4"
proof -
  have h: "tokenInvariant (trackUserMessage clockAsk ''hello'' zeroStats)"
    using tokenInvariant_preserved [of zeroStats clockAsk "''hello''"] by simp
  from tokenInvariant_preserved
    [of "trackUserMessage clockAsk ''hello'' zeroStats" clockAnswer _ "''hi there''"] h
  show ?thesis
    by (simp add: trackAIResponse_def trackUserMessage_def zeroStats_def
        estimatedTokens_def TOKENS_PER_CHAR_def Let_def)
qed

end
